theory Spec2Isabelle
  imports Main "HOL-Library.Sublist"
begin

section \<open>JavaScript idioms used by the functions\<close>

text \<open>
  A field of a Firestore document or of the request payload may be absent
  (\<open>undefined\<close>): it is an option.  The operator \<open>x || d\<close> yields \<open>d\<close> when \<open>x\<close> is
  falsy: absent, the number \<open>0\<close> or the empty string.
\<close>

definition or_int :: "int option \<Rightarrow> int \<Rightarrow> int" where
  "or_int x d = (case x of None \<Rightarrow> d | Some n \<Rightarrow> if n = 0 then d else n)"

definition or_str :: "string option \<Rightarrow> string \<Rightarrow> string" where
  "or_str x d = (case x of None \<Rightarrow> d | Some s \<Rightarrow> if s = [] then d else s)"

definition truthy_str :: "string option \<Rightarrow> bool" where
  "truthy_str x = (case x of None \<Rightarrow> False | Some s \<Rightarrow> s \<noteq> [])"

text \<open>\<open>String.prototype.includes\<close>: the needle occurs as a contiguous substring.\<close>

definition str_includes :: "string \<Rightarrow> string \<Rightarrow> bool" where
  "str_includes hay needle = sublist needle hay"

section \<open>The entitlement record: the document \<open>users/{uid}\<close>\<close>

text \<open>
  One optional field per property that the functions read or write.  Counters are
  JavaScript numbers holding integers; time stamps are milliseconds since the epoch.
\<close>

record user_doc =
  deviceID :: "string option"
  photoScansUsed :: "int option"
  photoScansLimit :: "int option"
  photoScansDayKey :: "string option"
  voiceActionsUsed :: "int option"
  voiceActionsLimit :: "int option"
  voiceActionsDayKey :: "string option"
  lifetimeRequests :: "int option"
  lifetimeLimit :: "int option"
  lifetimeAPIRequests :: "int option"
  monthlyTokens :: "int option"
  subscriptionTier :: "string option"
  subscriptionExpiresAt :: "int option"
  subscriptionProductId :: "string option"
  subscriptionVerifiedAt :: "int option"
  createdAt :: "int option"
  lastRequestAt :: "int option"

definition empty_doc :: user_doc where
  "empty_doc = \<lparr> deviceID = None, photoScansUsed = None, photoScansLimit = None,
     photoScansDayKey = None, voiceActionsUsed = None, voiceActionsLimit = None,
     voiceActionsDayKey = None, lifetimeRequests = None, lifetimeLimit = None,
     lifetimeAPIRequests = None, monthlyTokens = None, subscriptionTier = None,
     subscriptionExpiresAt = None, subscriptionProductId = None,
     subscriptionVerifiedAt = None, createdAt = None, lastRequestAt = None \<rparr>"

text \<open>\<open>FieldValue.increment(n)\<close>: an absent field counts as \<open>0\<close>.\<close>

definition increment :: "int \<Rightarrow> int option \<Rightarrow> int option" where
  "increment n x = Some ((case x of None \<Rightarrow> 0 | Some v \<Rightarrow> v) + n)"

section \<open>Period normalisation (index.js, lines 21--68)\<close>

definition FREE_VOICE_LIMIT :: int where
  "FREE_VOICE_LIMIT = 7"

definition FREE_PHOTO_LIMIT :: int where
  "FREE_PHOTO_LIMIT = 3"

text \<open>
  \<open>getMonthKey()\<close> reads the clock and formats it as UTC \<open>YYYY-MM\<close>.  The clock is an
  input of the model: every function below takes the month key of the moment it runs.

  Each helper issues at most one \<open>userRef.update({...})\<close>.  The object it passes is a
  \<open>reset_update\<close>: the counter and the month key are always in it, the limit only when
  it is being migrated.
\<close>

record reset_update =
  upd_used :: int
  upd_dayKey :: string
  upd_limit :: "int option"

definition apply_voice_update :: "reset_update \<Rightarrow> user_doc \<Rightarrow> user_doc" where
  "apply_voice_update upd d =
     d\<lparr> voiceActionsUsed := Some (upd_used upd),
        voiceActionsDayKey := Some (upd_dayKey upd),
        voiceActionsLimit := (case upd_limit upd of None \<Rightarrow> voiceActionsLimit d | Some l \<Rightarrow> Some l) \<rparr>"

definition apply_photo_update :: "reset_update \<Rightarrow> user_doc \<Rightarrow> user_doc" where
  "apply_photo_update upd d =
     d\<lparr> photoScansUsed := Some (upd_used upd),
        photoScansDayKey := Some (upd_dayKey upd),
        photoScansLimit := (case upd_limit upd of None \<Rightarrow> photoScansLimit d | Some l \<Rightarrow> Some l) \<rparr>"

text \<open>
  The helpers return the update they sent to the ledger (\<open>None\<close>: no write at all) and
  the local \<open>userData\<close>, to which they assign the same three fields.
\<close>

definition ensureMonthlyVoiceReset :: "string \<Rightarrow> user_doc \<Rightarrow> reset_update option \<times> user_doc" where
  "ensureMonthlyVoiceReset monthKey userData =
     (let tier = or_str (subscriptionTier userData) ''free'';
          needsLimitFix = (tier \<noteq> ''pro'' \<and>
             or_int (voiceActionsLimit userData) FREE_VOICE_LIMIT \<noteq> FREE_VOICE_LIMIT);
          needsReset = (tier \<noteq> ''pro'' \<and> voiceActionsDayKey userData \<noteq> Some monthKey)
      in if needsReset \<or> needsLimitFix then
           let upd = \<lparr> upd_used = (if needsReset then 0 else or_int (voiceActionsUsed userData) 0),
                       upd_dayKey = monthKey,
                       upd_limit = (if needsLimitFix then Some FREE_VOICE_LIMIT else None) \<rparr>
           in (Some upd, apply_voice_update upd userData)
         else (None, userData))"

definition ensureMonthlyPhotoReset :: "string \<Rightarrow> user_doc \<Rightarrow> reset_update option \<times> user_doc" where
  "ensureMonthlyPhotoReset monthKey userData =
     (let tier = or_str (subscriptionTier userData) ''free'';
          needsLimitFix = (tier \<noteq> ''pro'' \<and>
             or_int (photoScansLimit userData) FREE_PHOTO_LIMIT \<noteq> FREE_PHOTO_LIMIT);
          needsReset = (tier \<noteq> ''pro'' \<and> photoScansDayKey userData \<noteq> Some monthKey)
      in if needsReset \<or> needsLimitFix then
           let upd = \<lparr> upd_used = (if needsReset then 0 else or_int (photoScansUsed userData) 0),
                       upd_dayKey = monthKey,
                       upd_limit = (if needsLimitFix then Some FREE_PHOTO_LIMIT else None) \<rparr>
           in (Some upd, apply_photo_update upd userData)
         else (None, userData))"

text \<open>What the ledger holds after a helper ran on the document it had just read.\<close>

definition stored_after :: "(reset_update \<Rightarrow> user_doc \<Rightarrow> user_doc) \<Rightarrow> reset_update option \<Rightarrow> user_doc \<Rightarrow> user_doc" where
  "stored_after app w d = (case w of None \<Rightarrow> d | Some upd \<Rightarrow> app upd d)"

section \<open>Errors, requests and the opaque capabilities\<close>

text \<open>
  \<open>HttpsError(code, message, details)\<close>.  Messages are kept by their fixed part; the
  quota rejection keeps the tag of its message and the fields of its details: the limit,
  the used count where the details carry it, and the tier.
\<close>

datatype https_error =
    Unauthenticated
  | InvalidArgument string
  | ResourceExhausted string int "int option" "string option"
  | FailedPrecondition
  | Internal string

text \<open>The fields of \<open>request.auth\<close> and \<open>request.data\<close> that the photo-scan functions read.\<close>

record scan_request =
  auth_uid :: "string option"
  imageBase64 :: "string option"
  imageType :: "string option"
  photoType :: "string option"
  prompt :: "string option"
  customPrompt :: "string option"
  req_deviceID :: "string option"

text \<open>
  The provider is opaque: a call either throws (network failure, unreadable body) or
  delivers a response, which is \<open>ok\<close> with a parsed result or not \<open>ok\<close> with a status, a
  status text and an error body.
\<close>

record api_result =
  content :: "(string \<times> string) list"
  stop_reason :: string
  input_tokens :: int
  output_tokens :: int

datatype api_response = ApiOk api_result | ApiNotOk nat string string

datatype fetch_outcome = Fetched api_response | FetchError string

text \<open>
  What a request finds around it: the clock, the configured secret, the provider's answer
  for each model name, and whether \<open>usage_logs.add\<close> throws (\<open>Some message\<close>) or not.
  Reading the caller's document, creating it and updating it while it exists are taken
  to go through; an update of a document that does not exist is rejected by the ledger.
\<close>

record env =
  monthKey :: string
  now :: int
  apiKeyValue :: "string option"
  fetch :: "string \<Rightarrow> fetch_outcome"
  logWrite :: "string option"

record usage_log =
  log_userId :: string
  log_deviceID :: string
  log_service :: string
  log_model :: string
  log_photoType :: "string option"
  log_inputTokens :: int
  log_outputTokens :: int
  log_totalTokens :: int
  log_tier :: "string option"

text \<open>The ledger as one caller sees it: the caller's own document and the log collection.\<close>

record ledger =
  user :: "user_doc option"
  usage_logs :: "usage_log list"

record scan_response =
  markdown :: string
  usage :: "int \<times> int"
  resp_photoType :: string
  remainingScans :: int

section \<open>The photo-scan action (index.js, lines 74--337)\<close>

definition validTypes :: "string list" where
  "validTypes = [''image/jpeg'', ''image/png'', ''image/webp'', ''image/gif'']"

text \<open>
  \<open>(imageBase64.length * 0.75) / 1024 / 1024 > 5\<close>, in integers: three quarters of the
  length exceed five times \<open>1024 * 1024\<close>.
\<close>

definition tooLarge :: "string \<Rightarrow> bool" where
  "tooLarge s = (3 * int (length s) > 4 * 5 * 1024 * 1024)"

definition modelFallbacks :: "string list" where
  "modelFallbacks = [''claude-sonnet-4-5-20250929'', ''claude-sonnet-4-20250514'',
     ''claude-haiku-4-5-20251001'', ''claude-3-5-haiku-20241022'', ''claude-3-haiku-20240307'']"

text \<open>
  The fallback loop (lines 203--264): the first \<open>ok\<close> response ends it; a response that is
  not \<open>ok\<close> moves on to the next model only for status 404 or a body naming
  \<open>not_found\<close>, and is an error otherwise; a thrown call moves on unless the model is the
  last of the list.  With no result at the end the last error text is reported.
\<close>

fun tryModels :: "(string \<Rightarrow> fetch_outcome) \<Rightarrow> string list \<Rightarrow> string option \<Rightarrow> https_error + (api_result \<times> string)" where
  "tryModels f [] lastErrorText =
     Inl (Internal (''Claude API error: '' @ or_str lastErrorText ''Unknown error''))"
| "tryModels f (model # rest) lastErrorText =
     (case f model of
        Fetched (ApiOk result) \<Rightarrow> Inr (result, model)
      | Fetched (ApiNotOk status statusText errorText) \<Rightarrow>
          if status = 404 \<or> str_includes errorText ''not_found''
          then tryModels f rest (Some errorText)
          else Inl (Internal (''Claude API error: '' @ statusText))
      | FetchError message \<Rightarrow>
          if model = last modelFallbacks then Inl (Internal message)
          else tryModels f rest (Some message))"

text \<open>\<open>Array.prototype.join\<close>.\<close>

fun js_join :: "string \<Rightarrow> string list \<Rightarrow> string" where
  "js_join sep [] = []"
| "js_join sep [x] = x"
| "js_join sep (x # y # ys) = x @ sep @ js_join sep (y # ys)"

definition textContent :: "api_result \<Rightarrow> string" where
  "textContent result =
     js_join [CHR 0x0A, CHR 0x0A] (map snd (filter (\<lambda>block. fst block = ''text'') (content result)))"

text \<open>The document written by \<open>userRef.set\<close> for an unseen user (lines 130--140).\<close>

definition newUserDoc :: "string \<Rightarrow> string \<Rightarrow> int \<Rightarrow> user_doc" where
  "newUserDoc dev mk t = empty_doc\<lparr> deviceID := Some dev,
     photoScansUsed := Some 0, photoScansLimit := Some FREE_PHOTO_LIMIT, photoScansDayKey := Some mk,
     voiceActionsUsed := Some 0, voiceActionsLimit := Some FREE_VOICE_LIMIT, voiceActionsDayKey := Some mk,
     subscriptionTier := Some ''free'', createdAt := Some t \<rparr>"

text \<open>The local fallback \<open>userDoc.data() || {...}\<close> (lines 143--151).\<close>

definition defaultUserData :: "string \<Rightarrow> user_doc" where
  "defaultUserData mk = empty_doc\<lparr>
     photoScansUsed := Some 0, photoScansLimit := Some FREE_PHOTO_LIMIT, photoScansDayKey := Some mk,
     voiceActionsUsed := Some 0, voiceActionsLimit := Some FREE_VOICE_LIMIT, voiceActionsDayKey := Some mk,
     subscriptionTier := Some ''free'' \<rparr>"

text \<open>
  The function awaits the provider between the quota check and the increment, so it is
  given in two parts.  What the first part leaves in local variables for the second:
\<close>

record scan_pending =
  p_userId :: string
  p_deviceID :: string
  p_photoType :: string
  p_limit :: int
  p_used :: int
  p_tier :: "string option"

text \<open>
  Lines 84--189: validation, load or create the record, period normalisation, the quota
  check, the secret.  The prompt template only shapes the provider request and is left out.
\<close>

definition vision_begin :: "env \<Rightarrow> scan_request \<Rightarrow> ledger \<Rightarrow> (https_error + scan_pending) \<times> ledger" where
  "vision_begin e r L =
     (case auth_uid r of
        None \<Rightarrow> (Inl Unauthenticated, L)
      | Some userId \<Rightarrow>
        if \<not> truthy_str (imageBase64 r) then (Inl (InvalidArgument ''imageBase64 is required''), L)
        else if or_str (imageType r) ''image/jpeg'' \<notin> set validTypes
          then (Inl (InvalidArgument ''Invalid image type''), L)
        else if tooLarge (or_str (imageBase64 r) []) then (Inl (InvalidArgument ''Image too large''), L)
        else
          let dev = or_str (req_deviceID r) ''unknown'';
              stored = (case user L of None \<Rightarrow> newUserDoc dev (monthKey e) (now e) | Some d \<Rightarrow> d);
              userData0 = (case user L of None \<Rightarrow> defaultUserData (monthKey e) | Some d \<Rightarrow> d);
              (w, userData) = ensureMonthlyPhotoReset (monthKey e) userData0;
              L1 = L\<lparr> user := Some (stored_after apply_photo_update w stored) \<rparr>;
              scansLimit = (if subscriptionTier userData = Some ''pro'' then 999999
                            else or_int (photoScansLimit userData) 3);
              scansUsed = or_int (photoScansUsed userData) 0
          in if scansUsed \<ge> scansLimit \<and> subscriptionTier userData = Some ''free''
             then (Inl (ResourceExhausted ''PHOTO_SCANS_LIMIT_REACHED'' scansLimit
                          (Some scansUsed) (subscriptionTier userData)), L1)
             else if \<not> truthy_str (apiKeyValue e) then (Inl FailedPrecondition, L1)
             else (Inr \<lparr> p_userId = userId, p_deviceID = dev,
                         p_photoType = or_str (photoType r) ''note'',
                         p_limit = scansLimit, p_used = scansUsed,
                         p_tier = subscriptionTier userData \<rparr>, L1))"

text \<open>
  Lines 191--322: the provider call, then the usage update with atomic field increments,
  then the log entry, then the response.  \<open>userRef.update\<close> rejects when the document
  does not exist; an exception that is not an \<open>HttpsError\<close> is rethrown as \<open>internal\<close> with
  its message (lines 324--335).
\<close>

definition vision_finish :: "env \<Rightarrow> scan_pending \<Rightarrow> ledger \<Rightarrow> (https_error + scan_response) \<times> ledger" where
  "vision_finish e p L =
     (case tryModels (fetch e) modelFallbacks None of
        Inl err \<Rightarrow> (Inl err, L)
      | Inr (result, modelUsed) \<Rightarrow>
        (case user L of
           None \<Rightarrow> (Inl (Internal ''NOT_FOUND''), L)
         | Some d \<Rightarrow>
           let d' = d\<lparr> photoScansUsed := increment 1 (photoScansUsed d),
                       lifetimeAPIRequests := increment 1 (lifetimeAPIRequests d),
                       monthlyTokens := increment (input_tokens result + output_tokens result) (monthlyTokens d),
                       lastRequestAt := Some (now e) \<rparr>;
               L2 = L\<lparr> user := Some d' \<rparr>
           in (case logWrite e of
                 Some message \<Rightarrow> (Inl (Internal message), L2)
               | None \<Rightarrow>
                 (Inr \<lparr> markdown = textContent result,
                        usage = (input_tokens result, output_tokens result),
                        resp_photoType = p_photoType p,
                        remainingScans = max 0 (p_limit p - (p_used p + 1)) \<rparr>,
                  L2\<lparr> usage_logs := usage_logs L2 @
                        [\<lparr> log_userId = p_userId p, log_deviceID = p_deviceID p,
                           log_service = ''claude-vision'', log_model = modelUsed,
                           log_photoType = Some (p_photoType p),
                           log_inputTokens = input_tokens result,
                           log_outputTokens = output_tokens result,
                           log_totalTokens = input_tokens result + output_tokens result,
                           log_tier = p_tier p \<rparr>] \<rparr>))))"

definition callClaudeVision :: "env \<Rightarrow> scan_request \<Rightarrow> ledger \<Rightarrow> (https_error + scan_response) \<times> ledger" where
  "callClaudeVision e r L =
     (case vision_begin e r L of
        (Inl err, L1) \<Rightarrow> (Inl err, L1)
      | (Inr p, L1) \<Rightarrow> vision_finish e p L1)"

section \<open>Concurrent photo-scan requests\<close>

text \<open>
  Nothing serialises two requests of one user: each is a sequence of ledger operations
  separated by \<open>await\<close>, and the ledger executes the operations of all requests in some
  order.  The model interleaves at the provider call: \<open>Begin i\<close> runs request \<open>i\<close> up to
  the provider call, \<open>Finish i\<close> runs it from there to its end.  Every schedule of this
  model is an execution order the deployed function admits.
\<close>

datatype event = Begin nat | Finish nat

record sched =
  s_ledger :: ledger
  s_pending :: "(nat \<times> scan_pending) list"
  s_results :: "(nat \<times> (https_error + scan_response)) list"

fun step :: "(env \<times> scan_request) list \<Rightarrow> sched \<Rightarrow> event \<Rightarrow> sched" where
  "step calls s (Begin i) =
     (if i < length calls then
        (case vision_begin (fst (calls ! i)) (snd (calls ! i)) (s_ledger s) of
           (Inl err, L1) \<Rightarrow> s\<lparr> s_ledger := L1, s_results := s_results s @ [(i, Inl err)] \<rparr>
         | (Inr p, L1) \<Rightarrow> s\<lparr> s_ledger := L1, s_pending := (i, p) # s_pending s \<rparr>)
      else s)"
| "step calls s (Finish i) =
     (case map_of (s_pending s) i of
        None \<Rightarrow> s
      | Some p \<Rightarrow>
        (case vision_finish (fst (calls ! i)) p (s_ledger s) of
           (res, L2) \<Rightarrow> s\<lparr> s_ledger := L2,
                            s_pending := filter (\<lambda>q. fst q \<noteq> i) (s_pending s),
                            s_results := s_results s @ [(i, res)] \<rparr>))"

definition run_schedule :: "(env \<times> scan_request) list \<Rightarrow> event list \<Rightarrow> ledger \<Rightarrow> sched" where
  "run_schedule calls evs L =
     foldl (step calls) \<lparr> s_ledger = L, s_pending = [], s_results = [] \<rparr> evs"

text \<open>The same requests one after the other, each run to its end before the next starts.\<close>

fun run_sequential :: "(env \<times> scan_request) list \<Rightarrow> ledger \<Rightarrow> (https_error + scan_response) list \<times> ledger" where
  "run_sequential [] L = ([], L)"
| "run_sequential (c # cs) L =
     (case callClaudeVision (fst c) (snd c) L of
        (res, L1) \<Rightarrow> (case run_sequential cs L1 of (rs, L2) \<Rightarrow> (res # rs, L2)))"

section \<open>Subscription verification (index.js, lines 684--754)\<close>

text \<open>
  Decoding the token, finding the signing key and verifying the signature are the opaque
  verifier: it yields the verified payload or throws an error with a message.  The
  payload carries the product identifier and, for a subscription transaction, its expiry
  in milliseconds.
\<close>

record receipt_claims =
  expiresDate :: "int option"
  productId :: string

record verify_request =
  v_auth_uid :: "string option"
  jwsToken :: "string option"

record verify_response =
  v_success :: bool
  v_isActive :: bool
  v_expiresAt :: int
  v_subscriptionTier :: string

text \<open>
  \<open>new Date(value)\<close>, read by its time value: an absent value, or one more than
  \<open>8.64e15\<close> milliseconds away from the epoch, gives an invalid date (\<open>None\<close>), and
  every comparison with an invalid date is false.
\<close>

definition newDate :: "int option \<Rightarrow> int option" where
  "newDate v = (case v of
       None \<Rightarrow> None
     | Some ms \<Rightarrow> if - 8640000000000000 \<le> ms \<and> ms \<le> 8640000000000000 then Some ms else None)"

definition MIN_SECONDS :: int where
  "MIN_SECONDS = - 62135596800"

definition MAX_SECONDS :: int where
  "MAX_SECONDS = 253402300799"

text \<open>
  \<open>admin.firestore.Timestamp.fromDate(date)\<close> takes \<open>Math.floor(milliseconds / 1000)\<close> as
  the seconds of the time stamp and throws unless they are an integer from the first
  second of year 1 to the last second of year 9999.  The stored value is kept in
  milliseconds; the message of the error is abbreviated.
\<close>

definition timestampFromDate :: "int option \<Rightarrow> string + int" where
  "timestampFromDate date = (case date of
       None \<Rightarrow> Inl ''Value for argument seconds is not a valid integer''
     | Some ms \<Rightarrow>
         if MIN_SECONDS \<le> ms div 1000 \<and> ms div 1000 \<le> MAX_SECONDS then Inr ms
         else Inl ''Value for argument seconds is out of range'')"

text \<open>
  Lines 693--753.  The argument object of the update is built before the update is sent,
  so a time stamp that cannot be built stops the function before it writes; every error
  after the argument checks is rethrown as \<open>internal\<close> with its message.
\<close>

definition verifySubscription :: "(string \<Rightarrow> string + receipt_claims) \<Rightarrow> int \<Rightarrow> verify_request \<Rightarrow>
    user_doc option \<Rightarrow> (https_error + verify_response) \<times> user_doc option" where
  "verifySubscription verifier t r u =
     (case v_auth_uid r of
        None \<Rightarrow> (Inl Unauthenticated, u)
      | Some userId \<Rightarrow>
        if \<not> truthy_str (jwsToken r) then (Inl (InvalidArgument ''jwsToken is required''), u)
        else
          (case verifier (or_str (jwsToken r) []) of
             Inl message \<Rightarrow> (Inl (Internal message), u)
           | Inr payload \<Rightarrow>
             let expires = newDate (expiresDate payload);
                 isActive = (case expires of None \<Rightarrow> False | Some ms \<Rightarrow> ms > t)
             in (case timestampFromDate expires of
                   Inl message \<Rightarrow> (Inl (Internal message), u)
                 | Inr stamp \<Rightarrow>
                   (case u of
                      None \<Rightarrow> (Inl (Internal ''NOT_FOUND''), u)
                    | Some d \<Rightarrow>
                      (Inr \<lparr> v_success = True, v_isActive = isActive,
                             v_expiresAt = stamp,
                             v_subscriptionTier = (if isActive then ''pro'' else ''free'') \<rparr>,
                       Some (d\<lparr> subscriptionTier := Some (if isActive then ''pro'' else ''free''),
                                subscriptionExpiresAt := Some stamp,
                                subscriptionProductId := Some (productId payload),
                                subscriptionVerifiedAt := Some t \<rparr>))))))"

section \<open>The device check of the lifetime-limit generation\<close>

text \<open>
  Two earlier generations of the functions compare the stored device identifier with the
  presented one: \<open>callClaudeVision\<close> of the source part \<open>part_002\<close> (lines 270--495) and
  \<open>callClaudeProxy\<close> of the source part \<open>part_004\<close> (lines 25--229).  Their names carry
  the suffix \<open>_lifetime\<close> here, after the lifetime limits of that generation.  Both return,
  besides the result and the ledger, the warnings they wrote with \<open>console.warn\<close>.
\<close>

definition lower_char :: "char \<Rightarrow> char" where
  "lower_char c = (let n = (of_char c :: nat) in if 65 \<le> n \<and> n \<le> 90 then char_of (n + 32) else c)"

definition toLowerCase :: "string \<Rightarrow> string" where
  "toLowerCase s = map lower_char s"

text \<open>
  \<open>String.prototype.trim\<close> removes white space and line terminators from both ends.
  A string is its UTF-8 bytes, so each of these characters is a byte sequence: the six
  ASCII ones, then U+00A0, U+1680, U+2000 to U+200A, U+2028, U+2029, U+202F, U+205F,
  U+3000 and U+FEFF.
\<close>

definition whiteSpace :: "string list" where
  "whiteSpace =
     [[CHR 0x09], [CHR 0x0A], [CHR 0x0B], [CHR 0x0C], [CHR 0x0D], [CHR 0x20],
      [CHR 0xC2, CHR 0xA0], [CHR 0xE1, CHR 0x9A, CHR 0x80]] @
     map (\<lambda>b. [CHR 0xE2, CHR 0x80, b])
       [CHR 0x80, CHR 0x81, CHR 0x82, CHR 0x83, CHR 0x84, CHR 0x85, CHR 0x86, CHR 0x87,
        CHR 0x88, CHR 0x89, CHR 0x8A, CHR 0xA8, CHR 0xA9, CHR 0xAF] @
     [[CHR 0xE2, CHR 0x81, CHR 0x9F], [CHR 0xE3, CHR 0x80, CHR 0x80],
      [CHR 0xEF, CHR 0xBB, CHR 0xBF]]"

text \<open>The string without the first of the given sequences that it starts with, if any.\<close>

fun strip_one :: "string list \<Rightarrow> string \<Rightarrow> string option" where
  "strip_one [] s = None"
| "strip_one (w # ws) s = (if prefix w s then Some (drop (length w) s) else strip_one ws s)"

text \<open>
  Leading sequences are removed one at a time; each removal takes at least one byte, so
  as many rounds as the string has bytes remove them all.
\<close>

fun strip_leading :: "nat \<Rightarrow> string list \<Rightarrow> string \<Rightarrow> string" where
  "strip_leading 0 ws s = s"
| "strip_leading (Suc n) ws s =
     (case strip_one ws s of None \<Rightarrow> s | Some rest \<Rightarrow> strip_leading n ws rest)"

definition trim :: "string \<Rightarrow> string" where
  "trim s =
     (let front = strip_leading (length s) whiteSpace s
      in rev (strip_leading (length front) (map rev whiteSpace) (rev front)))"

definition mismatchWarning :: string where
  "mismatchWarning = ''Device ID mismatch - updating to new device''"

record scan_result =
  sr_markdown :: string
  sr_photoType :: string
  sr_remainingScans :: int

text \<open>
  The photo scan from its quota check to its end (\<open>part_002\<close>, lines 374--480), given what the first
  half of the function left in its local variables: the caller, the presented device,
  the tier, limit and used count it computed, the stored document after the device
  check, the log collection and the warnings so far.
\<close>

definition vision_lifetime_serve :: "env \<Rightarrow> scan_request \<Rightarrow> string \<Rightarrow> string \<Rightarrow> string \<Rightarrow> int \<Rightarrow> int \<Rightarrow>
    user_doc \<Rightarrow> usage_log list \<Rightarrow> string list \<Rightarrow> (https_error + scan_result) \<times> ledger \<times> string list" where
  "vision_lifetime_serve e r userId dev tier scansLimit scansUsed stored1 logs warnings =
     (let L1 = \<lparr> user = Some stored1, usage_logs = logs \<rparr>
      in if scansUsed \<ge> scansLimit \<and> tier = ''free''
         then (Inl (ResourceExhausted ''PHOTO_SCANS_LIMIT_REACHED'' scansLimit None (Some tier)),
               L1, warnings)
         else if \<not> truthy_str (apiKeyValue e) then (Inl FailedPrecondition, L1, warnings)
         else
           (case fetch e ''claude-3-5-sonnet-20241022'' of
              FetchError message \<Rightarrow> (Inl (Internal message), L1, warnings)
            | Fetched (ApiNotOk status statusText errorText) \<Rightarrow>
                (Inl (Internal (''Claude Vision API error: '' @ statusText)), L1, warnings)
            | Fetched (ApiOk result) \<Rightarrow>
              let extractedText =
                    (case find (\<lambda>block. fst block = ''text'') (content result) of
                       None \<Rightarrow> [] | Some block \<Rightarrow> trim (snd block))
              in if extractedText = []
                 then (Inl (Internal ''Claude Vision returned empty response''), L1, warnings)
                 else
                   let inputTokens = or_int (Some (input_tokens result)) 0;
                       outputTokens = or_int (Some (output_tokens result)) 0;
                       totalTokens = inputTokens + outputTokens;
                       stored2 = stored1\<lparr>
                          photoScansUsed := increment 1 (photoScansUsed stored1),
                          lifetimeAPIRequests := increment 1 (lifetimeAPIRequests stored1),
                          monthlyTokens := increment totalTokens (monthlyTokens stored1),
                          lastRequestAt := Some (now e) \<rparr>;
                       L2 = L1\<lparr> user := Some stored2 \<rparr>
                   in (case logWrite e of
                         Some message \<Rightarrow> (Inl (Internal message), L2, warnings)
                       | None \<Rightarrow>
                         (Inr \<lparr> sr_markdown = extractedText,
                                sr_photoType = or_str (photoType r) [],
                                sr_remainingScans = max 0 (scansLimit - (scansUsed + 1)) \<rparr>,
                          L2\<lparr> usage_logs := usage_logs L2 @
                             [\<lparr> log_userId = userId, log_deviceID = dev,
                                log_service = ''claude-vision'',
                                log_model = ''claude-3-5-sonnet-20241022'',
                                log_photoType = Some (or_str (photoType r) []),
                                log_inputTokens = inputTokens,
                                log_outputTokens = outputTokens,
                                log_totalTokens = totalTokens,
                                log_tier = Some tier \<rparr>] \<rparr>,
                          warnings))))"

text \<open>
  \<open>part_002\<close>, lines 280--372: validation, load or create the record, the tier, limit and used count,
  and the device check, which overwrites the stored identifier and warns when a stored
  identifier differs from the presented one.
\<close>

definition callClaudeVision_lifetime :: "env \<Rightarrow> scan_request \<Rightarrow> ledger \<Rightarrow>
    (https_error + scan_result) \<times> ledger \<times> string list" where
  "callClaudeVision_lifetime e r L =
     (case auth_uid r of
        None \<Rightarrow> (Inl Unauthenticated, L, [])
      | Some userId \<Rightarrow>
        if \<not> truthy_str (imageBase64 r) \<or> \<not> truthy_str (imageType r) \<or>
           \<not> truthy_str (photoType r) \<or> \<not> truthy_str (req_deviceID r)
        then (Inl (InvalidArgument ''imageBase64, imageType, photoType, deviceID are required''), L, [])
        else
          let lowered = toLowerCase (or_str (imageType r) []);
              normalizedImageType = (if lowered = ''image/jpg'' then ''image/jpeg'' else lowered)
          in if normalizedImageType \<notin> set validTypes
             then (Inl (InvalidArgument ''Unsupported image type''), L, [])
             else if tooLarge (or_str (imageBase64 r) [])
             then (Inl (InvalidArgument ''Image too large''), L, [])
             else
               let dev = or_str (req_deviceID r) [];
                   stored = (case user L of
                       None \<Rightarrow> empty_doc\<lparr> deviceID := Some dev, photoScansUsed := Some 0,
                                 photoScansLimit := Some 3, lifetimeAPIRequests := Some 0,
                                 monthlyTokens := Some 0, subscriptionTier := Some ''free'',
                                 createdAt := Some (now e) \<rparr>
                     | Some d \<Rightarrow> d);
                   userData = (case user L of
                       None \<Rightarrow> empty_doc\<lparr> photoScansUsed := Some 0, photoScansLimit := Some 3,
                                 subscriptionTier := Some ''free'', monthlyTokens := Some 0 \<rparr>
                     | Some d \<Rightarrow> d);
                   tier = or_str (subscriptionTier userData) ''free'';
                   scansLimit = (if tier = ''pro'' then 999999 else or_int (photoScansLimit userData) 3);
                   scansUsed = or_int (photoScansUsed userData) 0;
                   mismatch = (truthy_str (deviceID userData) \<and> deviceID userData \<noteq> Some dev);
                   warnings = (if mismatch then [mismatchWarning] else []);
                   stored1 = (if mismatch then stored\<lparr> deviceID := Some dev \<rparr> else stored)
               in vision_lifetime_serve e r userId dev tier scansLimit scansUsed stored1
                    (usage_logs L) warnings)"

record chat_request =
  chat_auth_uid :: "string option"
  chat_deviceID :: "string option"

record chat_response =
  chat_content :: "(string \<times> string) list"
  chat_stopReason :: string
  chat_usage :: "int \<times> int"
  remainingRequests :: int

text \<open>
  The chat proxy from its quota check to its end (\<open>part_004\<close>, lines 103--214), given the caller, the
  presented device, the record as it was read, the limit computed from it, the stored
  document after the device check, the log collection and the warnings so far.  The
  messages, tools and system prompt of a chat request only travel to the provider and
  are left out.
\<close>

definition proxy_lifetime_serve :: "env \<Rightarrow> string \<Rightarrow> string \<Rightarrow> user_doc \<Rightarrow> int \<Rightarrow>
    user_doc \<Rightarrow> usage_log list \<Rightarrow> string list \<Rightarrow> (https_error + chat_response) \<times> ledger \<times> string list" where
  "proxy_lifetime_serve e userId dev userData limit stored1 logs warnings =
     (let L1 = \<lparr> user = Some stored1, usage_logs = logs \<rparr>
      in if or_int (lifetimeRequests userData) 0 \<ge> limit \<and> subscriptionTier userData = Some ''free''
         then (Inl (ResourceExhausted ''LIFETIME_LIMIT_REACHED'' limit None (subscriptionTier userData)),
               L1, warnings)
         else if \<not> truthy_str (apiKeyValue e) then (Inl FailedPrecondition, L1, warnings)
         else
           (case fetch e ''claude-3-5-haiku-20241022'' of
              FetchError message \<Rightarrow> (Inl (Internal message), L1, warnings)
            | Fetched (ApiNotOk status statusText errorText) \<Rightarrow>
                (Inl (Internal (''Claude API error: '' @ statusText)), L1, warnings)
            | Fetched (ApiOk result) \<Rightarrow>
              let stored2 = stored1\<lparr>
                     lifetimeAPIRequests := increment 1 (lifetimeAPIRequests stored1),
                     monthlyTokens := increment (input_tokens result + output_tokens result)
                                        (monthlyTokens stored1),
                     lastRequestAt := Some (now e) \<rparr>;
                  L2 = L1\<lparr> user := Some stored2 \<rparr>
              in (case logWrite e of
                    Some message \<Rightarrow> (Inl (Internal message), L2, warnings)
                  | None \<Rightarrow>
                    let voiceLimit = (if subscriptionTier userData = Some ''pro'' then 999999
                                      else or_int (voiceActionsLimit userData) 3);
                        voiceUsed = or_int (voiceActionsUsed userData) 0
                    in (Inr \<lparr> chat_content = content result,
                              chat_stopReason = stop_reason result,
                              chat_usage = (input_tokens result, output_tokens result),
                              remainingRequests = voiceLimit - voiceUsed \<rparr>,
                        L2\<lparr> usage_logs := usage_logs L2 @
                           [\<lparr> log_userId = userId, log_deviceID = dev,
                              log_service = ''claude'',
                              log_model = ''claude-3-5-haiku-20241022'',
                              log_photoType = None,
                              log_inputTokens = input_tokens result,
                              log_outputTokens = output_tokens result,
                              log_totalTokens = input_tokens result + output_tokens result,
                              log_tier = subscriptionTier userData \<rparr>] \<rparr>,
                        warnings))))"

text \<open>
  \<open>part_004\<close>, lines 35--101: authentication, load or create the record, the limit, the
  device check.
\<close>

definition callClaudeProxy_lifetime :: "env \<Rightarrow> chat_request \<Rightarrow> ledger \<Rightarrow>
    (https_error + chat_response) \<times> ledger \<times> string list" where
  "callClaudeProxy_lifetime e r L =
     (case chat_auth_uid r of
        None \<Rightarrow> (Inl Unauthenticated, L, [])
      | Some userId \<Rightarrow>
        let dev = or_str (chat_deviceID r) ''unknown'';
            stored = (case user L of
                None \<Rightarrow> empty_doc\<lparr> deviceID := Some dev, lifetimeRequests := Some 0,
                          lifetimeLimit := Some 3, monthlyTokens := Some 0,
                          subscriptionTier := Some ''free'', createdAt := Some (now e) \<rparr>
              | Some d \<Rightarrow> d);
            userData = (case user L of
                None \<Rightarrow> empty_doc\<lparr> lifetimeRequests := Some 0, lifetimeLimit := Some 3,
                          subscriptionTier := Some ''free'', monthlyTokens := Some 0 \<rparr>
              | Some d \<Rightarrow> d);
            limit = (if subscriptionTier userData = Some ''pro'' then 999999
                     else or_int (lifetimeLimit userData) 3);
            mismatch = (truthy_str (deviceID userData) \<and> deviceID userData \<noteq> Some dev);
            warnings = (if mismatch then [mismatchWarning] else []);
            stored1 = (if mismatch then stored\<lparr> deviceID := Some dev \<rparr> else stored)
        in proxy_lifetime_serve e userId dev userData limit stored1 (usage_logs L) warnings)"

section \<open>Derived notions used to state the properties\<close>

text \<open>A request that passes the argument checks of lines 84--116.\<close>

definition wellFormed :: "scan_request \<Rightarrow> bool" where
  "wellFormed r = (auth_uid r \<noteq> None \<and> truthy_str (imageBase64 r) \<and>
     or_str (imageType r) ''image/jpeg'' \<in> set validTypes \<and>
     \<not> tooLarge (or_str (imageBase64 r) []))"

text \<open>
  The remaining photo allowance of a record at a given month, computed as the usage
  summary does (index.js, lines 652--669): normalise, take the limit and the used
  count, and clamp the difference at zero.
\<close>

definition remainingPhotoScans :: "string \<Rightarrow> user_doc \<Rightarrow> int" where
  "remainingPhotoScans mk d =
     (let userData = snd (ensureMonthlyPhotoReset mk d);
          scansLimit = (if subscriptionTier userData = Some ''pro'' then 999999
                        else or_int (photoScansLimit userData) FREE_PHOTO_LIMIT);
          scansUsed = or_int (photoScansUsed userData) 0
      in max 0 (scansLimit - scansUsed))"

text \<open>The stored record once the normalisation of a request has run on it.\<close>

definition normalizedPhoto :: "string \<Rightarrow> user_doc \<Rightarrow> user_doc" where
  "normalizedPhoto mk d = stored_after apply_photo_update (fst (ensureMonthlyPhotoReset mk d)) d"

definition isQuotaExhausted :: "https_error + 'a \<Rightarrow> bool" where
  "isQuotaExhausted x = (case x of Inl (ResourceExhausted tag l u t) \<Rightarrow> True | _ \<Rightarrow> False)"

definition succeeded :: "https_error + 'a \<Rightarrow> bool" where
  "succeeded x = (case x of Inr y \<Rightarrow> True | Inl err \<Rightarrow> False)"

text \<open>A request that passes the argument checks of \<open>callClaudeVision_lifetime\<close>.\<close>

definition wellFormedLifetime :: "scan_request \<Rightarrow> bool" where
  "wellFormedLifetime r = (auth_uid r \<noteq> None \<and> truthy_str (imageBase64 r) \<and>
     truthy_str (imageType r) \<and> truthy_str (photoType r) \<and> truthy_str (req_deviceID r) \<and>
     (if toLowerCase (or_str (imageType r) []) = ''image/jpg'' then ''image/jpeg''
      else toLowerCase (or_str (imageType r) [])) \<in> set validTypes \<and>
     \<not> tooLarge (or_str (imageBase64 r) []))"

text \<open>The provider call of the photo scan delivers a result for some model of the list.\<close>

definition providerSucceeds :: "env \<Rightarrow> bool" where
  "providerSucceeds e = (case tryModels (fetch e) modelFallbacks None of Inr x \<Rightarrow> True | Inl err \<Rightarrow> False)"

text \<open>
  A call that nothing but the quota can stop, at month \<open>mk\<close>: well-formed request,
  configured secret, provider success, log write accepted.
\<close>

definition goodCall :: "string \<Rightarrow> env \<times> scan_request \<Rightarrow> bool" where
  "goodCall mk c = (monthKey (fst c) = mk \<and> wellFormed (snd c) \<and> truthy_str (apiKeyValue (fst c)) \<and>
     providerSucceeds (fst c) \<and> logWrite (fst c) = None)"

section \<open>Sample inputs\<close>

definition sample_request :: scan_request where
  "sample_request = \<lparr> auth_uid = Some ''user-1'', imageBase64 = Some ''aGVsbG8='',
     imageType = Some ''image/png'', photoType = Some ''receipt'', prompt = None,
     customPrompt = None, req_deviceID = Some ''device-B'' \<rparr>"

definition sample_result :: api_result where
  "sample_result = \<lparr> content = [(''text'', ''# Receipt'')], stop_reason = ''end_turn'',
     input_tokens = 1200, output_tokens = 300 \<rparr>"

definition env_ok :: env where
  "env_ok = \<lparr> monthKey = ''2025-06'', now = 1750000000000, apiKeyValue = Some ''sk-test'',
     fetch = (\<lambda>model. Fetched (ApiOk sample_result)), logWrite = None \<rparr>"

definition env_provider_down :: env where
  "env_provider_down = env_ok\<lparr> fetch := (\<lambda>model. FetchError ''timeout'') \<rparr>"

definition env_log_down :: env where
  "env_log_down = env_ok\<lparr> logWrite := Some ''usage_logs unavailable'' \<rparr>"

text \<open>A record of the given tier with the given photo counter, limit and month key.\<close>

definition sample_verify :: verify_request where
  "sample_verify = \<lparr> v_auth_uid = Some ''user-1'', jwsToken = Some ''eyJ'' \<rparr>"

text \<open>A verifier that accepts every token with the given expiry.\<close>

definition verifySample :: "int option \<Rightarrow> string \<Rightarrow> string + receipt_claims" where
  "verifySample x token = Inr \<lparr> expiresDate = x, productId = ''pro.monthly'' \<rparr>"

definition sample_chat :: chat_request where
  "sample_chat = \<lparr> chat_auth_uid = Some ''user-1'', chat_deviceID = Some ''device-C'' \<rparr>"

definition sample_doc :: "string \<Rightarrow> int \<Rightarrow> int \<Rightarrow> string \<Rightarrow> user_doc" where
  "sample_doc tier used limit key = empty_doc\<lparr> deviceID := Some ''device-A'',
     photoScansUsed := Some used, photoScansLimit := Some limit, photoScansDayKey := Some key,
     voiceActionsUsed := Some used, voiceActionsLimit := Some limit, voiceActionsDayKey := Some key,
     lifetimeRequests := Some used, lifetimeLimit := Some limit,
     lifetimeAPIRequests := Some 10, monthlyTokens := Some 5000,
     subscriptionTier := Some tier \<rparr>"

definition sample_ledger :: "user_doc \<Rightarrow> ledger" where
  "sample_ledger d = \<lparr> user = Some d, usage_logs = [] \<rparr>"

section \<open>Properties\<close>

subsection \<open>Auxiliary facts\<close>

lemma or_int_simps:
  "or_int None d = d" "or_int (Some n) d = (if n = 0 then d else n)"
  by (simp_all add: or_int_def)

lemma tier_pro_iff: "(or_str t ''free'' = ''pro'') = (t = Some ''pro'')"
  by (auto simp add: or_str_def split: option.splits)

lemma photo_local_tier:
  "subscriptionTier (snd (ensureMonthlyPhotoReset mk d)) = subscriptionTier d"
  by (simp add: ensureMonthlyPhotoReset_def Let_def apply_photo_update_def)

lemma photo_local_limit:
  "subscriptionTier d \<noteq> Some ''pro'' \<Longrightarrow>
   or_int (photoScansLimit (snd (ensureMonthlyPhotoReset mk d))) 3 = 3"
  by (simp add: ensureMonthlyPhotoReset_def Let_def apply_photo_update_def tier_pro_iff
      FREE_PHOTO_LIMIT_def or_int_simps split: option.splits)

lemma photo_local_used:
  "subscriptionTier d \<noteq> Some ''pro'' \<Longrightarrow>
   or_int (photoScansUsed (snd (ensureMonthlyPhotoReset mk d))) 0 =
     (if photoScansDayKey d = Some mk then or_int (photoScansUsed d) 0 else 0)"
  by (simp add: ensureMonthlyPhotoReset_def Let_def apply_photo_update_def tier_pro_iff
      or_int_simps split: option.splits)

lemma photo_stored_used:
  "subscriptionTier d \<noteq> Some ''pro'' \<Longrightarrow>
   or_int (photoScansUsed (normalizedPhoto mk d)) 0 =
     (if photoScansDayKey d = Some mk then or_int (photoScansUsed d) 0 else 0)"
  by (simp add: normalizedPhoto_def stored_after_def ensureMonthlyPhotoReset_def Let_def
      apply_photo_update_def tier_pro_iff or_int_simps split: option.splits)

lemma photo_stored_key:
  "subscriptionTier d \<noteq> Some ''pro'' \<Longrightarrow> photoScansDayKey (normalizedPhoto mk d) = Some mk"
  by (simp add: normalizedPhoto_def stored_after_def ensureMonthlyPhotoReset_def Let_def
      apply_photo_update_def tier_pro_iff split: option.splits)

lemma photo_stored_frame:
  "subscriptionTier (normalizedPhoto mk d) = subscriptionTier d"
  "lifetimeAPIRequests (normalizedPhoto mk d) = lifetimeAPIRequests d"
  "monthlyTokens (normalizedPhoto mk d) = monthlyTokens d"
  "deviceID (normalizedPhoto mk d) = deviceID d"
  by (simp_all add: normalizedPhoto_def stored_after_def ensureMonthlyPhotoReset_def Let_def
      apply_photo_update_def)

lemma vision_begin_existing:
  assumes "user L = Some d" "wellFormed r"
  shows "vision_begin e r L =
     (let userData = snd (ensureMonthlyPhotoReset (monthKey e) d);
          L1 = L\<lparr> user := Some (normalizedPhoto (monthKey e) d) \<rparr>;
          scansLimit = (if subscriptionTier userData = Some ''pro'' then 999999
                        else or_int (photoScansLimit userData) 3);
          scansUsed = or_int (photoScansUsed userData) 0
      in if scansUsed \<ge> scansLimit \<and> subscriptionTier userData = Some ''free''
         then (Inl (ResourceExhausted ''PHOTO_SCANS_LIMIT_REACHED'' scansLimit
                      (Some scansUsed) (subscriptionTier userData)), L1)
         else if \<not> truthy_str (apiKeyValue e) then (Inl FailedPrecondition, L1)
         else (Inr \<lparr> p_userId = the (auth_uid r), p_deviceID = or_str (req_deviceID r) ''unknown'',
                     p_photoType = or_str (photoType r) ''note'',
                     p_limit = scansLimit, p_used = scansUsed,
                     p_tier = subscriptionTier userData \<rparr>, L1))"
  using assms
  by (auto simp add: vision_begin_def wellFormed_def normalizedPhoto_def Let_def split: prod.splits)

lemma remaining_free:
  "subscriptionTier d = Some ''free'' \<Longrightarrow>
   remainingPhotoScans mk d =
     max 0 (3 - (if photoScansDayKey d = Some mk then or_int (photoScansUsed d) 0 else 0))"
  by (simp add: remainingPhotoScans_def Let_def photo_local_tier photo_local_limit
      photo_local_used FREE_PHOTO_LIMIT_def)

lemma vision_begin_free:
  assumes "user L = Some d" "wellFormed r" "subscriptionTier d = Some ''free''"
  shows "vision_begin e r L =
     (let L1 = L\<lparr> user := Some (normalizedPhoto (monthKey e) d) \<rparr>;
          scansUsed = (if photoScansDayKey d = Some (monthKey e) then or_int (photoScansUsed d) 0 else 0)
      in if remainingPhotoScans (monthKey e) d = 0
         then (Inl (ResourceExhausted ''PHOTO_SCANS_LIMIT_REACHED'' 3
                      (Some scansUsed) (Some ''free'')), L1)
         else if \<not> truthy_str (apiKeyValue e) then (Inl FailedPrecondition, L1)
         else (Inr \<lparr> p_userId = the (auth_uid r), p_deviceID = or_str (req_deviceID r) ''unknown'',
                     p_photoType = or_str (photoType r) ''note'',
                     p_limit = 3, p_used = scansUsed,
                     p_tier = Some ''free'' \<rparr>, L1))"
  using assms
  by (simp add: vision_begin_existing remaining_free Let_def photo_local_tier photo_local_limit
      photo_local_used)

lemma sample_wellFormed: "wellFormed sample_request"
  by (simp add: wellFormed_def sample_request_def truthy_str_def or_str_def validTypes_def tooLarge_def)

lemma sample_doc_fields:
  "subscriptionTier (sample_doc t u l k) = Some t"
  "photoScansUsed (sample_doc t u l k) = Some u"
  "photoScansLimit (sample_doc t u l k) = Some l"
  "photoScansDayKey (sample_doc t u l k) = Some k"
  "voiceActionsUsed (sample_doc t u l k) = Some u"
  "voiceActionsLimit (sample_doc t u l k) = Some l"
  "voiceActionsDayKey (sample_doc t u l k) = Some k"
  "lifetimeAPIRequests (sample_doc t u l k) = Some 10"
  "monthlyTokens (sample_doc t u l k) = Some 5000"
  "deviceID (sample_doc t u l k) = Some ''device-A''"
  by (simp_all add: sample_doc_def empty_doc_def)

lemma sample_ledger_fields:
  "user (sample_ledger d) = Some d" "usage_logs (sample_ledger d) = []"
  by (simp_all add: sample_ledger_def)

lemma env_ok_fields:
  "monthKey env_ok = ''2025-06''" "apiKeyValue env_ok = Some ''sk-test''" "logWrite env_ok = None"
  "now env_ok = 1750000000000"
  by (simp_all add: env_ok_def)

lemma env_ok_provider:
  "tryModels (fetch env_ok) modelFallbacks None = Inr (sample_result, ''claude-sonnet-4-5-20250929'')"
  by (simp add: env_ok_def modelFallbacks_def)

subsection \<open>Claim C3: a quota rejection changes no counter\<close>

text \<open>
  C3.  For every free-tier record whose remaining photo allowance, after the period
  normalisation for the month of the request, is 0, a well-formed photo-scan request is
  rejected with the quota error carrying the limit (the default 3), the used count and
  the tier \<open>free\<close>; the stored used counter, lifetime request count and monthly token
  count are the same after the call as before, and no log entry is added.
\<close>

theorem C3_quota_rejection_is_side_effect_free:
  assumes "user L = Some d" "subscriptionTier d = Some ''free''" "wellFormed r"
    "remainingPhotoScans (monthKey e) d = 0"
  shows "fst (callClaudeVision e r L) =
           Inl (ResourceExhausted ''PHOTO_SCANS_LIMIT_REACHED'' FREE_PHOTO_LIMIT
                  (Some (or_int (photoScansUsed d) 0)) (Some ''free'')) \<and>
     (\<exists>d'. user (snd (callClaudeVision e r L)) = Some d' \<and>
           photoScansUsed d' = photoScansUsed d \<and>
           lifetimeAPIRequests d' = lifetimeAPIRequests d \<and>
           monthlyTokens d' = monthlyTokens d) \<and>
     usage_logs (snd (callClaudeVision e r L)) = usage_logs L"
proof -
  have key: "photoScansDayKey d = Some (monthKey e)" and big: "3 \<le> or_int (photoScansUsed d) 0"
    using assms(2,4) by (auto simp add: remaining_free split: if_splits)
  have used: "photoScansUsed (normalizedPhoto (monthKey e) d) = photoScansUsed d"
    using assms(2) key big
    by (simp add: normalizedPhoto_def stored_after_def ensureMonthlyPhotoReset_def Let_def
        apply_photo_update_def or_int_def split: option.splits if_splits)
  show ?thesis
    using assms key used
    by (simp add: callClaudeVision_def vision_begin_free Let_def FREE_PHOTO_LIMIT_def
        photo_stored_frame)
qed

text \<open>
  Witness for C3: a free record in the current month with 4 scans used and a stored limit
  of 5.  The normalisation migrates the limit to 3, the remaining allowance is 0, the
  request is rejected and the three counters keep their values.
\<close>

theorem C3_quota_rejection_is_side_effect_free_witness:
  "fst (callClaudeVision env_ok sample_request (sample_ledger (sample_doc ''free'' 4 5 ''2025-06''))) =
     Inl (ResourceExhausted ''PHOTO_SCANS_LIMIT_REACHED'' 3 (Some 4) (Some ''free'')) \<and>
   (\<exists>d'. user (snd (callClaudeVision env_ok sample_request
                        (sample_ledger (sample_doc ''free'' 4 5 ''2025-06'')))) = Some d' \<and>
      photoScansUsed d' = Some 4 \<and> lifetimeAPIRequests d' = Some 10 \<and> monthlyTokens d' = Some 5000)"
proof -
  have rem: "remainingPhotoScans (monthKey env_ok) (sample_doc ''free'' 4 5 ''2025-06'') = 0"
    by (simp add: remaining_free sample_doc_fields env_ok_fields or_int_simps)
  show ?thesis
    using C3_quota_rejection_is_side_effect_free
      [of "sample_ledger (sample_doc ''free'' 4 5 ''2025-06'')" "sample_doc ''free'' 4 5 ''2025-06''"
          sample_request env_ok, OF _ _ sample_wellFormed rem]
    by (simp add: sample_doc_fields sample_ledger_fields or_int_simps FREE_PHOTO_LIMIT_def)
qed

subsection \<open>Claim C10: the helpers leave a pro record alone\<close>

text \<open>
  C10.  For every record whose tier is \<open>pro\<close>, the monthly voice reset and the monthly
  photo reset send no update to the ledger and return the record as it was, whatever month
  key is stored: counter, limit and month key are not touched while the tier is \<open>pro\<close>.
\<close>

theorem C10_pro_records_are_never_normalised:
  assumes "subscriptionTier d = Some ''pro''"
  shows "ensureMonthlyVoiceReset mk d = (None, d) \<and> ensureMonthlyPhotoReset mk d = (None, d)"
  using assms
  by (simp add: ensureMonthlyVoiceReset_def ensureMonthlyPhotoReset_def tier_pro_iff)

text \<open>
  Witness for C10: a pro record with 40 used, a stored limit of 5 and the month key of
  January 2023, normalised in June 2025.
\<close>

theorem C10_pro_records_are_never_normalised_witness:
  "ensureMonthlyVoiceReset ''2025-06'' (sample_doc ''pro'' 40 5 ''2023-01'') =
     (None, sample_doc ''pro'' 40 5 ''2023-01'') \<and>
   ensureMonthlyPhotoReset ''2025-06'' (sample_doc ''pro'' 40 5 ''2023-01'') =
     (None, sample_doc ''pro'' 40 5 ''2023-01'')"
  using C10_pro_records_are_never_normalised [of "sample_doc ''pro'' 40 5 ''2023-01''" "''2025-06''"]
  by (simp add: sample_doc_fields)

subsection \<open>Claim C6: limit migration\<close>

text \<open>
  Counterexample to C6 as stated: a free record in the current month whose stored voice
  limit is 0.  The stored limit differs from the default 7, yet the helper sends no update
  and the stored limit stays 0, because \<open>0 || FREE_VOICE_LIMIT\<close> already is the default.
\<close>

theorem C6_zero_limit_is_not_migrated:
  "subscriptionTier (sample_doc ''free'' 2 0 ''2025-06'') \<noteq> Some ''pro'' \<and>
   voiceActionsLimit (sample_doc ''free'' 2 0 ''2025-06'') = Some 0 \<and>
   Some 0 \<noteq> Some FREE_VOICE_LIMIT \<and>
   ensureMonthlyVoiceReset ''2025-06'' (sample_doc ''free'' 2 0 ''2025-06'') =
     (None, sample_doc ''free'' 2 0 ''2025-06'')"
  by (simp add: ensureMonthlyVoiceReset_def sample_doc_fields tier_pro_iff or_int_simps
      FREE_VOICE_LIMIT_def)

text \<open>
  C6, amended.  For every record that is not \<open>pro\<close> and whose stored voice limit is
  non-zero and differs from the default, the monthly voice reset sends one update that
  sets the stored limit to the default 7, together with the month key; this happens also
  when the stored month key is already the current one, and then the used counter is
  written back unchanged.
\<close>

theorem C6_limit_migration:
  assumes "subscriptionTier d \<noteq> Some ''pro''" "voiceActionsLimit d = Some l"
    "l \<noteq> 0" "l \<noteq> FREE_VOICE_LIMIT"
  shows "\<exists>upd. ensureMonthlyVoiceReset mk d = (Some upd, apply_voice_update upd d) \<and>
           upd_limit upd = Some FREE_VOICE_LIMIT \<and> upd_dayKey upd = mk \<and>
           upd_used upd = (if voiceActionsDayKey d = Some mk then or_int (voiceActionsUsed d) 0 else 0) \<and>
           voiceActionsLimit (apply_voice_update upd d) = Some FREE_VOICE_LIMIT"
  using assms
  by (simp add: ensureMonthlyVoiceReset_def tier_pro_iff or_int_simps Let_def apply_voice_update_def)

text \<open>
  Witness for C6: a free record of the current month with 4 voice actions used and a
  stored limit of 5.
\<close>

theorem C6_limit_migration_witness:
  "ensureMonthlyVoiceReset ''2025-06'' (sample_doc ''free'' 4 5 ''2025-06'') =
     (Some \<lparr> upd_used = 4, upd_dayKey = ''2025-06'', upd_limit = Some 7 \<rparr>,
      (sample_doc ''free'' 4 5 ''2025-06'')\<lparr> voiceActionsUsed := Some 4,
         voiceActionsDayKey := Some ''2025-06'', voiceActionsLimit := Some 7 \<rparr>)"
  using C6_limit_migration [of "sample_doc ''free'' 4 5 ''2025-06''" 5 "''2025-06''"]
  by (auto simp add: sample_doc_fields or_int_simps FREE_VOICE_LIMIT_def apply_voice_update_def)

text \<open>The photo helper migrates its limit in the same way.\<close>

lemma photo_limit_migration:
  assumes "subscriptionTier d \<noteq> Some ''pro''" "photoScansLimit d = Some l"
    "l \<noteq> 0" "l \<noteq> FREE_PHOTO_LIMIT"
  shows "\<exists>upd. ensureMonthlyPhotoReset mk d = (Some upd, apply_photo_update upd d) \<and>
           upd_limit upd = Some FREE_PHOTO_LIMIT \<and> upd_dayKey upd = mk \<and>
           upd_used upd = (if photoScansDayKey d = Some mk then or_int (photoScansUsed d) 0 else 0) \<and>
           photoScansLimit (apply_photo_update upd d) = Some FREE_PHOTO_LIMIT"
  using assms
  by (simp add: ensureMonthlyPhotoReset_def tier_pro_iff or_int_simps Let_def apply_photo_update_def)

subsection \<open>Claim C4: rollover and evaluation in one pass\<close>

lemma providerSucceeds_iff:
  "providerSucceeds e = (\<exists>result m. tryModels (fetch e) modelFallbacks None = Inr (result, m))"
  by (auto simp add: providerSucceeds_def split: sum.splits)

lemma tryModels_error:
  "tryModels f ms lastErrorText = Inl err \<Longrightarrow> \<exists>message. err = Internal message"
  by (induction ms arbitrary: lastErrorText)
     (auto split: fetch_outcome.splits api_response.splits if_splits)

lemma vision_finish_not_quota: "\<not> isQuotaExhausted (fst (vision_finish e p L))"
  by (auto simp add: vision_finish_def isQuotaExhausted_def Let_def
      split: sum.splits option.splits prod.splits dest: tryModels_error)

lemma photo_rollover_update:
  assumes "subscriptionTier d \<noteq> Some ''pro''" "photoScansDayKey d \<noteq> Some mk"
  shows "\<exists>upd. fst (ensureMonthlyPhotoReset mk d) = Some upd \<and> upd_used upd = 0 \<and> upd_dayKey upd = mk"
    and "photoScansUsed (normalizedPhoto mk d) = Some 0"
    and "photoScansDayKey (normalizedPhoto mk d) = Some mk"
  using assms
  by (simp_all add: normalizedPhoto_def stored_after_def ensureMonthlyPhotoReset_def tier_pro_iff
      Let_def apply_photo_update_def)

text \<open>
  C4.  For every free-tier record whose stored photo month key differs from the month of
  the request (whatever its used counter, in particular when it equals the limit), the
  normalisation sends one update that carries both the used counter 0 and the current
  month key; the same well-formed request is never rejected for quota, and when the
  secret is configured, the provider delivers and the log write is accepted, it succeeds
  with 2 scans remaining and leaves the used counter at 1 under the current month key.
\<close>

theorem C4_rollover_and_evaluation_in_one_pass:
  assumes "user L = Some d" "subscriptionTier d = Some ''free''"
    "photoScansDayKey d \<noteq> Some (monthKey e)" "wellFormed r"
  shows "(\<exists>upd. fst (ensureMonthlyPhotoReset (monthKey e) d) = Some upd \<and>
            upd_used upd = 0 \<and> upd_dayKey upd = monthKey e) \<and>
         \<not> isQuotaExhausted (fst (callClaudeVision e r L)) \<and>
         (truthy_str (apiKeyValue e) \<and> providerSucceeds e \<and> logWrite e = None \<longrightarrow>
            (\<exists>resp L' d'. callClaudeVision e r L = (Inr resp, L') \<and> remainingScans resp = 2 \<and>
               user L' = Some d' \<and> photoScansUsed d' = Some 1 \<and>
               photoScansDayKey d' = Some (monthKey e)))"
proof -
  let ?mk = "monthKey e"
  have np: "subscriptionTier d \<noteq> Some ''pro''" using assms(2) by simp
  have rem: "remainingPhotoScans ?mk d = 3"
    using assms(2,3) by (simp add: remaining_free)
  have bg: "vision_begin e r L =
      (if \<not> truthy_str (apiKeyValue e)
       then (Inl FailedPrecondition, L\<lparr> user := Some (normalizedPhoto ?mk d) \<rparr>)
       else (Inr \<lparr> p_userId = the (auth_uid r), p_deviceID = or_str (req_deviceID r) ''unknown'',
                   p_photoType = or_str (photoType r) ''note'', p_limit = 3, p_used = 0,
                   p_tier = Some ''free'' \<rparr>, L\<lparr> user := Some (normalizedPhoto ?mk d) \<rparr>))"
    using assms rem by (simp add: vision_begin_free Let_def)
  have one: "\<exists>upd. fst (ensureMonthlyPhotoReset ?mk d) = Some upd \<and>
            upd_used upd = 0 \<and> upd_dayKey upd = ?mk"
    using photo_rollover_update(1)[OF np assms(3)] .
  have two: "\<not> isQuotaExhausted (fst (callClaudeVision e r L))"
    using vision_finish_not_quota
    by (simp add: callClaudeVision_def bg isQuotaExhausted_def)
  have three: "\<exists>resp L' d'. callClaudeVision e r L = (Inr resp, L') \<and> remainingScans resp = 2 \<and>
               user L' = Some d' \<and> photoScansUsed d' = Some 1 \<and>
               photoScansDayKey d' = Some ?mk"
    if ok: "truthy_str (apiKeyValue e)" "providerSucceeds e" "logWrite e = None"
  proof -
    from ok(2) obtain result m where pr: "tryModels (fetch e) modelFallbacks None = Inr (result, m)"
      by (auto simp add: providerSucceeds_iff)
    show ?thesis
      using ok(1,3) pr photo_rollover_update(2,3)[OF np assms(3)]
      by (simp add: callClaudeVision_def bg vision_finish_def Let_def increment_def)
  qed
  from one two three show ?thesis by blast
qed

text \<open>
  Witness for C4: a free record stamped \<open>2025-05\<close> with 3 of 3 scans used, and a request
  in \<open>2025-06\<close>.
\<close>

theorem C4_rollover_and_evaluation_in_one_pass_witness:
  "photoScansDayKey (sample_doc ''free'' 3 3 ''2025-05'') \<noteq> Some (monthKey env_ok) \<and>
   fst (ensureMonthlyPhotoReset ''2025-06'' (sample_doc ''free'' 3 3 ''2025-05'')) =
     Some \<lparr> upd_used = 0, upd_dayKey = ''2025-06'', upd_limit = None \<rparr> \<and>
   (\<exists>resp L' d'. callClaudeVision env_ok sample_request (sample_ledger (sample_doc ''free'' 3 3 ''2025-05''))
        = (Inr resp, L') \<and> remainingScans resp = 2 \<and> user L' = Some d' \<and>
      photoScansUsed d' = Some 1 \<and> photoScansDayKey d' = Some ''2025-06'')"
proof -
  have k: "photoScansDayKey (sample_doc ''free'' 3 3 ''2025-05'') \<noteq> Some (monthKey env_ok)"
    by (simp add: sample_doc_fields env_ok_fields)
  have p: "providerSucceeds env_ok"
    by (simp add: providerSucceeds_def env_ok_provider)
  have u: "fst (ensureMonthlyPhotoReset ''2025-06'' (sample_doc ''free'' 3 3 ''2025-05'')) =
     Some \<lparr> upd_used = 0, upd_dayKey = ''2025-06'', upd_limit = None \<rparr>"
    by (simp add: ensureMonthlyPhotoReset_def sample_doc_fields tier_pro_iff or_int_simps
        FREE_PHOTO_LIMIT_def Let_def)
  show ?thesis
    using C4_rollover_and_evaluation_in_one_pass
      [of "sample_ledger (sample_doc ''free'' 3 3 ''2025-05'')" "sample_doc ''free'' 3 3 ''2025-05''"
          env_ok sample_request, OF _ _ k sample_wellFormed] p u
    by (simp add: sample_doc_fields sample_ledger_fields env_ok_fields truthy_str_def)
qed

subsection \<open>Claim C5: the pro tier bypasses the counter\<close>

lemma vision_begin_pro:
  assumes "user L = Some d" "subscriptionTier d = Some ''pro''"
  shows "\<not> isQuotaExhausted (fst (vision_begin e r L))"
  using assms
  by (simp add: vision_begin_def ensureMonthlyPhotoReset_def tier_pro_iff Let_def
      isQuotaExhausted_def split: option.splits)

lemma vision_begin_stores:
  "vision_begin e r L = (Inr p, L1) \<Longrightarrow> \<exists>d1. user L1 = Some d1 \<and> usage_logs L1 = usage_logs L"
  by (auto simp add: vision_begin_def Let_def split: option.splits if_splits prod.splits)

text \<open>
  C5.  For every record whose tier is \<open>pro\<close>, whatever its used counter and stored limit,
  a photo-scan request is never rejected with the quota error; a well-formed request
  with the secret configured, the provider delivering and the log write accepted
  succeeds.
\<close>

theorem C5_pro_bypasses_the_counter:
  assumes "user L = Some d" "subscriptionTier d = Some ''pro''"
  shows "\<not> isQuotaExhausted (fst (callClaudeVision e r L)) \<and>
         (wellFormed r \<and> truthy_str (apiKeyValue e) \<and> providerSucceeds e \<and> logWrite e = None \<longrightarrow>
            succeeded (fst (callClaudeVision e r L)))"
proof -
  have gate: "\<not> isQuotaExhausted (fst (callClaudeVision e r L))"
  proof (cases "vision_begin e r L")
    case (Pair x L1)
    show ?thesis
    proof (cases x)
      case (Inl err)
      with Pair vision_begin_pro[OF assms, of e r] show ?thesis
        by (simp add: callClaudeVision_def isQuotaExhausted_def)
    next
      case (Inr p)
      with Pair vision_finish_not_quota[of e p L1] show ?thesis
        by (simp add: callClaudeVision_def)
    qed
  qed
  have served: "succeeded (fst (callClaudeVision e r L))"
    if ok: "wellFormed r" "truthy_str (apiKeyValue e)" "providerSucceeds e" "logWrite e = None"
  proof -
    from ok(3) obtain result m where pr: "tryModels (fetch e) modelFallbacks None = Inr (result, m)"
      by (auto simp add: providerSucceeds_iff)
    show ?thesis
      using assms ok(1,2,4) pr
      by (simp add: callClaudeVision_def vision_begin_existing photo_local_tier Let_def
          vision_finish_def succeeded_def)
  qed
  from gate served show ?thesis by blast
qed

text \<open>
  Witness for C5: a pro record with 40 scans used against a stored limit of 3.
\<close>

theorem C5_pro_bypasses_the_counter_witness:
  "or_int (photoScansUsed (sample_doc ''pro'' 40 3 ''2025-06'')) 0 \<ge>
     or_int (photoScansLimit (sample_doc ''pro'' 40 3 ''2025-06'')) 3 \<and>
   \<not> isQuotaExhausted (fst (callClaudeVision env_ok sample_request
        (sample_ledger (sample_doc ''pro'' 40 3 ''2025-06'')))) \<and>
   succeeded (fst (callClaudeVision env_ok sample_request
        (sample_ledger (sample_doc ''pro'' 40 3 ''2025-06''))))"
proof -
  have p: "providerSucceeds env_ok"
    by (simp add: providerSucceeds_def env_ok_provider)
  show ?thesis
    using C5_pro_bypasses_the_counter
      [of "sample_ledger (sample_doc ''pro'' 40 3 ''2025-06'')" "sample_doc ''pro'' 40 3 ''2025-06''"
          env_ok sample_request] p sample_wellFormed
    by (simp add: sample_doc_fields sample_ledger_fields env_ok_fields truthy_str_def or_int_simps)
qed

subsection \<open>Claim C2: when the quota is charged\<close>

text \<open>
  Counterexample to C2 as stated: a free record with 0 of 3 scans used and a provider that
  throws for every model.  The request passes the quota check and fails with the
  provider's error, and the stored used counter is still 0.
\<close>

theorem C2_provider_failure_is_not_charged:
  "remainingPhotoScans ''2025-06'' (sample_doc ''free'' 0 3 ''2025-06'') = 3 \<and>
   fst (callClaudeVision env_provider_down sample_request
          (sample_ledger (sample_doc ''free'' 0 3 ''2025-06''))) = Inl (Internal ''timeout'') \<and>
   map_option photoScansUsed (user (snd (callClaudeVision env_provider_down sample_request
          (sample_ledger (sample_doc ''free'' 0 3 ''2025-06''))))) = Some (Some 0)"
  by code_simp

text \<open>
  C2, amended.  For every free-tier record with remaining photo allowance at least 1 and
  every well-formed request with the secret configured: when the provider call fails,
  the request fails with the provider's error and the ledger is exactly as the period
  normalisation left it, so the used counter is not incremented; when the provider call
  succeeds, the used counter is the normalised value plus 1.  The charge is made after
  the provider call has succeeded.
\<close>

theorem C2_charge_only_after_provider_success:
  assumes "user L = Some d" "subscriptionTier d = Some ''free''" "wellFormed r"
    "remainingPhotoScans (monthKey e) d \<ge> 1" "truthy_str (apiKeyValue e)"
  shows "(\<forall>err. tryModels (fetch e) modelFallbacks None = Inl err \<longrightarrow>
            callClaudeVision e r L = (Inl err, L\<lparr> user := Some (normalizedPhoto (monthKey e) d) \<rparr>)) \<and>
         (\<forall>result m. tryModels (fetch e) modelFallbacks None = Inr (result, m) \<longrightarrow>
            (\<exists>d'. user (snd (callClaudeVision e r L)) = Some d' \<and>
               photoScansUsed d' = Some (or_int (photoScansUsed (normalizedPhoto (monthKey e) d)) 0 + 1)))"
  using assms
  by (auto simp add: callClaudeVision_def vision_begin_free Let_def vision_finish_def increment_def
      or_int_def split: option.splits)

text \<open>
  Witness for C2: a free record with 2 of 3 scans used, once with the provider down (the
  ledger is unchanged) and once with the provider up (the used counter becomes 3).
\<close>

theorem C2_charge_only_after_provider_success_witness:
  "tryModels (fetch env_provider_down) modelFallbacks None = Inl (Internal ''timeout'') \<and>
   callClaudeVision env_provider_down sample_request (sample_ledger (sample_doc ''free'' 2 3 ''2025-06'')) =
     (Inl (Internal ''timeout''), sample_ledger (sample_doc ''free'' 2 3 ''2025-06'')) \<and>
   tryModels (fetch env_ok) modelFallbacks None = Inr (sample_result, ''claude-sonnet-4-5-20250929'') \<and>
   map_option photoScansUsed (user (snd (callClaudeVision env_ok sample_request
       (sample_ledger (sample_doc ''free'' 2 3 ''2025-06''))))) = Some (Some 3)"
proof -
  let ?d = "sample_doc ''free'' 2 3 ''2025-06''"
  have rem: "remainingPhotoScans (monthKey env_ok) ?d \<ge> 1"
    "remainingPhotoScans (monthKey env_provider_down) ?d \<ge> 1"
    by (simp_all add: remaining_free sample_doc_fields env_ok_fields env_provider_down_def or_int_simps)
  have down: "tryModels (fetch env_provider_down) modelFallbacks None = Inl (Internal ''timeout'')"
    by (simp add: env_provider_down_def modelFallbacks_def)
  have norm: "normalizedPhoto ''2025-06'' ?d = ?d"
    by (simp add: normalizedPhoto_def stored_after_def ensureMonthlyPhotoReset_def sample_doc_fields
        tier_pro_iff or_int_simps FREE_PHOTO_LIMIT_def)
  have key: "apiKeyValue env_provider_down = Some ''sk-test''" "monthKey env_provider_down = ''2025-06''"
    by (simp_all add: env_provider_down_def env_ok_def)
  show ?thesis
    using C2_charge_only_after_provider_success
      [of "sample_ledger ?d" ?d sample_request env_provider_down, OF _ _ sample_wellFormed rem(2)]
      C2_charge_only_after_provider_success
      [of "sample_ledger ?d" ?d sample_request env_ok, OF _ _ sample_wellFormed rem(1)]
      down env_ok_provider norm
    by (auto simp add: sample_doc_fields sample_ledger_fields env_ok_fields key truthy_str_def or_int_simps
        sample_ledger_def)
qed

subsection \<open>Claim C8: a failing usage-log write\<close>

text \<open>
  Counterexample to C8 as stated: the provider delivers a result and the usage-log write
  throws.  The caller receives an \<open>internal\<close> error with the message of the log write.
\<close>

theorem C8_log_failure_masks_a_successful_scan:
  "providerSucceeds env_log_down \<and>
   fst (callClaudeVision env_log_down sample_request
          (sample_ledger (sample_doc ''free'' 0 3 ''2025-06''))) = Inl (Internal ''usage_logs unavailable'')"
  by code_simp

text \<open>
  C8, amended.  For every photo-scan request that reaches the provider call and whose
  provider call succeeds: when the usage-log write throws, the request fails with an
  \<open>internal\<close> error carrying the message of the log write, although the used counter and
  the lifetime request count have already been incremented and no log entry is stored;
  when the usage-log write is accepted, the request succeeds.
\<close>

theorem C8_log_write_decides_the_outcome:
  assumes "vision_begin e r L = (Inr p, L1)"
    "tryModels (fetch e) modelFallbacks None = Inr (result, m)"
  shows "(\<forall>message. logWrite e = Some message \<longrightarrow>
            fst (callClaudeVision e r L) = Inl (Internal message) \<and>
            usage_logs (snd (callClaudeVision e r L)) = usage_logs L \<and>
            (\<exists>d1 d2. user L1 = Some d1 \<and> user (snd (callClaudeVision e r L)) = Some d2 \<and>
               photoScansUsed d2 = increment 1 (photoScansUsed d1) \<and>
               lifetimeAPIRequests d2 = increment 1 (lifetimeAPIRequests d1))) \<and>
         (logWrite e = None \<longrightarrow> succeeded (fst (callClaudeVision e r L)))"
proof -
  from vision_begin_stores[OF assms(1)] obtain d1 where
    d1: "user L1 = Some d1" "usage_logs L1 = usage_logs L" by blast
  show ?thesis
    using assms d1
    by (auto simp add: callClaudeVision_def vision_finish_def Let_def succeeded_def)
qed

text \<open>
  Witness for C8: the same request on a free record with 0 of 3 scans used, once with the
  log collection unavailable and once with it available.
\<close>

theorem C8_log_write_decides_the_outcome_witness:
  "fst (callClaudeVision env_log_down sample_request (sample_ledger (sample_doc ''free'' 0 3 ''2025-06'')))
     = Inl (Internal ''usage_logs unavailable'') \<and>
   map_option photoScansUsed (user (snd (callClaudeVision env_log_down sample_request
       (sample_ledger (sample_doc ''free'' 0 3 ''2025-06''))))) = Some (Some 1) \<and>
   succeeded (fst (callClaudeVision env_ok sample_request (sample_ledger (sample_doc ''free'' 0 3 ''2025-06''))))"
proof -
  let ?L = "sample_ledger (sample_doc ''free'' 0 3 ''2025-06'')"
  have b1: "vision_begin env_log_down sample_request ?L =
      (Inr \<lparr> p_userId = ''user-1'', p_deviceID = ''device-B'', p_photoType = ''receipt'',
             p_limit = 3, p_used = 0, p_tier = Some ''free'' \<rparr>, ?L)"
    by code_simp
  have b2: "vision_begin env_ok sample_request ?L =
      (Inr \<lparr> p_userId = ''user-1'', p_deviceID = ''device-B'', p_photoType = ''receipt'',
             p_limit = 3, p_used = 0, p_tier = Some ''free'' \<rparr>, ?L)"
    by code_simp
  have f1: "tryModels (fetch env_log_down) modelFallbacks None =
      Inr (sample_result, ''claude-sonnet-4-5-20250929'')"
    by (simp add: env_log_down_def env_ok_def modelFallbacks_def)
  have l1: "logWrite env_log_down = Some ''usage_logs unavailable''"
    by (simp add: env_log_down_def)
  show ?thesis
    using C8_log_write_decides_the_outcome [OF b1 f1] C8_log_write_decides_the_outcome [OF b2 env_ok_provider]
      l1
    by (auto simp add: env_ok_fields sample_ledger_fields sample_doc_fields increment_def)
qed

subsection \<open>Claim C1: concurrent requests and the quota\<close>

text \<open>A schedule that runs one request from its beginning to its end is the function itself.\<close>

lemma run_schedule_single:
  "s_results (run_schedule [c] [Begin 0, Finish 0] L) = [(0, fst (callClaudeVision (fst c) (snd c) L))] \<and>
   s_ledger (run_schedule [c] [Begin 0, Finish 0] L) = snd (callClaudeVision (fst c) (snd c) L)"
  by (simp add: run_schedule_def callClaudeVision_def split: prod.splits sum.splits)

text \<open>
  Counterexample to C1 as stated: a free record with 2 of 3 scans used (remaining
  allowance 1) and two requests that both read the record before either increments it.
  Both succeed, and the stored used counter ends at 4.
\<close>

theorem C1_interleaved_requests_over_consume:
  "remainingPhotoScans ''2025-06'' (sample_doc ''free'' 2 3 ''2025-06'') = 1 \<and>
   map (succeeded \<circ> snd)
     (s_results (run_schedule [(env_ok, sample_request), (env_ok, sample_request)]
        [Begin 0, Begin 1, Finish 0, Finish 1]
        (sample_ledger (sample_doc ''free'' 2 3 ''2025-06'')))) = [True, True] \<and>
   map_option photoScansUsed
     (user (s_ledger (run_schedule [(env_ok, sample_request), (env_ok, sample_request)]
        [Begin 0, Begin 1, Finish 0, Finish 1]
        (sample_ledger (sample_doc ''free'' 2 3 ''2025-06''))))) = Some (Some 4)"
  by code_simp

lemma remaining_nonneg: "subscriptionTier d = Some ''free'' \<Longrightarrow> 0 \<le> remainingPhotoScans mk d"
  by (simp add: remaining_free)

lemma good_call_step:
  assumes "user L = Some d" "subscriptionTier d = Some ''free''" "goodCall mk c"
  shows "\<exists>res L' d'. callClaudeVision (fst c) (snd c) L = (res, L') \<and> user L' = Some d' \<and>
           subscriptionTier d' = Some ''free'' \<and>
           (if remainingPhotoScans mk d = 0
            then isQuotaExhausted res \<and> \<not> succeeded res \<and> remainingPhotoScans mk d' = 0
            else succeeded res \<and> \<not> isQuotaExhausted res \<and>
                 remainingPhotoScans mk d' = remainingPhotoScans mk d - 1)"
proof -
  obtain e r where c: "c = (e, r)" by (cases c)
  from assms(3) c have g: "monthKey e = mk" "wellFormed r" "truthy_str (apiKeyValue e)"
    "providerSucceeds e" "logWrite e = None"
    by (simp_all add: goodCall_def)
  from g(4) obtain result m where pr: "tryModels (fetch e) modelFallbacks None = Inr (result, m)"
    by (auto simp add: providerSucceeds_iff)
  have np: "subscriptionTier d \<noteq> Some ''pro''" using assms(2) by simp
  let ?n = "normalizedPhoto mk d"
  have nt: "subscriptionTier ?n = Some ''free''"
    using assms(2) by (simp add: photo_stored_frame)
  have nk: "photoScansDayKey ?n = Some mk"
    using np by (rule photo_stored_key)
  have nu: "or_int (photoScansUsed ?n) 0 =
      (if photoScansDayKey d = Some mk then or_int (photoScansUsed d) 0 else 0)"
    using np by (rule photo_stored_used)
  have remn: "remainingPhotoScans mk ?n = remainingPhotoScans mk d"
    using assms(2) nt nk nu by (simp add: remaining_free)
  show ?thesis
  proof (cases "remainingPhotoScans mk d = 0")
    case True
    then show ?thesis
      using assms(1,2) g(1,2) c nt remn
      by (simp add: callClaudeVision_def vision_begin_free Let_def isQuotaExhausted_def
          succeeded_def)
  next
    case False
    let ?d' = "?n\<lparr> photoScansUsed := increment 1 (photoScansUsed ?n),
                       lifetimeAPIRequests := increment 1 (lifetimeAPIRequests ?n),
                       monthlyTokens := increment (input_tokens result + output_tokens result) (monthlyTokens ?n),
                       lastRequestAt := Some (now e) \<rparr>"
    have t': "subscriptionTier ?d' = Some ''free''" using nt by simp
    have k': "photoScansDayKey ?d' = Some mk" using nk by simp
    have u': "or_int (photoScansUsed ?d') 0 = or_int (photoScansUsed ?n) 0 + 1"
      by (simp add: increment_def or_int_def split: option.splits)
    have pos: "remainingPhotoScans mk d = 3 - or_int (photoScansUsed ?n) 0"
      using False assms(2) nu by (simp add: remaining_free split: if_splits)
    have rem': "remainingPhotoScans mk ?d' = remainingPhotoScans mk d - 1"
      using False pos u' k' remaining_free[OF t', of mk] remaining_nonneg[OF assms(2), of mk]
      by simp
    show ?thesis
      using False assms(1,2) g(1,2,3,5) c pr t' rem'
      by (simp add: callClaudeVision_def vision_begin_free Let_def vision_finish_def
          isQuotaExhausted_def succeeded_def)
  qed
qed

lemma run_sequential_counts:
  assumes "user L = Some d" "subscriptionTier d = Some ''free''" "\<forall>c \<in> set calls. goodCall mk c"
  shows "length (filter succeeded (fst (run_sequential calls L))) =
           min (nat (remainingPhotoScans mk d)) (length calls) \<and>
         length (filter isQuotaExhausted (fst (run_sequential calls L))) =
           length calls - nat (remainingPhotoScans mk d)"
  using assms
proof (induction calls arbitrary: L d)
  case Nil
  then show ?case by simp
next
  case (Cons c cs)
  from Cons.prems(3) have gc: "goodCall mk c" and rest: "\<forall>c \<in> set cs. goodCall mk c"
    by simp_all
  from good_call_step[OF Cons.prems(1,2) gc] obtain res L' d' where
    st: "callClaudeVision (fst c) (snd c) L = (res, L')" "user L' = Some d'"
        "subscriptionTier d' = Some ''free''"
        "if remainingPhotoScans mk d = 0
            then isQuotaExhausted res \<and> \<not> succeeded res \<and> remainingPhotoScans mk d' = 0
            else succeeded res \<and> \<not> isQuotaExhausted res \<and>
                 remainingPhotoScans mk d' = remainingPhotoScans mk d - 1"
    by blast
  note ih = Cons.IH[OF st(2,3) rest]
  have unfold: "fst (run_sequential (c # cs) L) = res # fst (run_sequential cs L')"
    by (simp add: st(1) split: prod.splits)
  have nn: "0 \<le> remainingPhotoScans mk d" using Cons.prems(2) by (rule remaining_nonneg)
  show ?case
  proof (cases "remainingPhotoScans mk d = 0")
    case True
    with st(4) ih show ?thesis
      by (simp add: unfold del: run_sequential.simps)
  next
    case False
    with nn have pos: "0 < remainingPhotoScans mk d" by simp
    then have n: "nat (remainingPhotoScans mk d - 1) = nat (remainingPhotoScans mk d) - 1"
      "0 < nat (remainingPhotoScans mk d)" by simp_all
    with False st(4) ih show ?thesis
      by (simp add: unfold del: run_sequential.simps)
  qed
qed

lemma sample_goodCall: "goodCall ''2025-06'' (env_ok, sample_request)"
  by (simp add: goodCall_def env_ok_fields sample_wellFormed truthy_str_def providerSucceeds_def
      env_ok_provider)

text \<open>
  C1, amended.  For every free-tier record with remaining photo allowance \<open>R\<close> and any
  number \<open>N\<close> of photo-scan requests that run one after the other in the same month,
  each well-formed, with the secret configured, the provider delivering and the log write
  accepted: exactly \<open>min R N\<close> of them succeed and \<open>N - R\<close> are rejected with the quota
  error; when the stored used counter is not negative, the number of successes does not
  exceed the limit 3.
\<close>

theorem C1_sequential_requests_respect_the_quota:
  assumes "user L = Some d" "subscriptionTier d = Some ''free''" "\<forall>c \<in> set calls. goodCall mk c"
  shows "length (filter succeeded (fst (run_sequential calls L))) =
           min (nat (remainingPhotoScans mk d)) (length calls) \<and>
         length (filter isQuotaExhausted (fst (run_sequential calls L))) =
           length calls - nat (remainingPhotoScans mk d) \<and>
         (0 \<le> or_int (photoScansUsed d) 0 \<longrightarrow>
            length (filter succeeded (fst (run_sequential calls L))) \<le> nat FREE_PHOTO_LIMIT)"
proof -
  note counts = run_sequential_counts[OF assms]
  have "nat (remainingPhotoScans mk d) \<le> nat FREE_PHOTO_LIMIT" if "0 \<le> or_int (photoScansUsed d) 0"
    using that assms(2) by (auto simp add: remaining_free FREE_PHOTO_LIMIT_def)
  with counts show ?thesis by (auto simp add: min_def)
qed

text \<open>
  Witness for C1: three requests in a row against a free record with 2 of 3 scans used:
  one succeeds, two are rejected.
\<close>

theorem C1_sequential_requests_respect_the_quota_witness:
  "remainingPhotoScans ''2025-06'' (sample_doc ''free'' 2 3 ''2025-06'') = 1 \<and>
   length (filter succeeded (fst (run_sequential
      [(env_ok, sample_request), (env_ok, sample_request), (env_ok, sample_request)]
      (sample_ledger (sample_doc ''free'' 2 3 ''2025-06''))))) = 1 \<and>
   length (filter isQuotaExhausted (fst (run_sequential
      [(env_ok, sample_request), (env_ok, sample_request), (env_ok, sample_request)]
      (sample_ledger (sample_doc ''free'' 2 3 ''2025-06''))))) = 2"
proof -
  have rem: "remainingPhotoScans ''2025-06'' (sample_doc ''free'' 2 3 ''2025-06'') = 1"
    by (simp add: remaining_free sample_doc_fields or_int_simps)
  have good: "\<forall>c \<in> set [(env_ok, sample_request), (env_ok, sample_request), (env_ok, sample_request)].
      goodCall ''2025-06'' c"
    by (simp add: sample_goodCall)
  show ?thesis
    using C1_sequential_requests_respect_the_quota
      [of "sample_ledger (sample_doc ''free'' 2 3 ''2025-06'')" "sample_doc ''free'' 2 3 ''2025-06''"
          "[(env_ok, sample_request), (env_ok, sample_request), (env_ok, sample_request)]" "''2025-06''",
       OF _ _ good] rem
    by (simp add: sample_ledger_fields sample_doc_fields del: run_sequential.simps)
qed

subsection \<open>Claim C7: verification is authoritative for the tier\<close>

text \<open>
  Counterexample to C7 as stated: a verified payload whose expiry is the first
  millisecond of year 10000, presented for a free record.  The expiry lies in the future,
  yet the time stamp cannot be built: the call fails with an \<open>internal\<close> error and the
  record stays as it was, tier \<open>free\<close> included.
\<close>

theorem C7_expiry_beyond_the_timestamp_range:
  "1750000000000 < (253402300800000 :: int) \<and>
   verifySubscription (verifySample (Some 253402300800000)) 1750000000000 sample_verify
      (Some (sample_doc ''free'' 0 3 ''2025-06'')) =
     (Inl (Internal ''Value for argument seconds is out of range''),
      Some (sample_doc ''free'' 0 3 ''2025-06''))"
  by (simp add: verifySubscription_def verifySample_def sample_verify_def truthy_str_def
      or_str_def newDate_def timestampFromDate_def MIN_SECONDS_def MAX_SECONDS_def)

text \<open>
  C7, amended.  For every authenticated verification request whose token the verifier
  accepts with a payload whose expiry is a date the ledger can store (its seconds lie
  from year 1 to year 9999), and every existing record: the stored tier becomes \<open>pro\<close>
  when the payload's expiry lies after the current time and \<open>free\<close> otherwise, the stored
  expiry and product become those of the payload, and the verification time is stamped;
  none of the new values depends on what the record held before.  The response reports
  the same tier and the same active flag.
\<close>

theorem C7_verification_overwrites_the_tier:
  assumes "v_auth_uid r = Some uid" "truthy_str (jwsToken r)"
    "verifier (or_str (jwsToken r) []) = Inr payload"
    "expiresDate payload = Some ms" "MIN_SECONDS \<le> ms div 1000" "ms div 1000 \<le> MAX_SECONDS"
  shows "verifySubscription verifier t r (Some d) =
     (Inr \<lparr> v_success = True, v_isActive = (ms > t),
            v_expiresAt = ms,
            v_subscriptionTier = (if ms > t then ''pro'' else ''free'') \<rparr>,
      Some (d\<lparr> subscriptionTier := Some (if ms > t then ''pro'' else ''free''),
               subscriptionExpiresAt := Some ms,
               subscriptionProductId := Some (productId payload),
               subscriptionVerifiedAt := Some t \<rparr>))"
proof -
  from assms(5,6) have range: "- 8640000000000000 \<le> ms" "ms \<le> 8640000000000000"
    by (simp_all add: MIN_SECONDS_def MAX_SECONDS_def)
  then have date: "newDate (expiresDate payload) = Some ms"
    using assms(4) by (simp add: newDate_def)
  have stamp: "timestampFromDate (Some ms) = Inr ms"
    using assms(5,6) by (simp add: timestampFromDate_def)
  show ?thesis
    using assms(1-3) date stamp by (simp add: verifySubscription_def Let_def)
qed

text \<open>
  Witness for C7: a pro record that receives an expired receipt becomes free, and a free
  record that receives a receipt expiring in the future becomes pro.
\<close>

theorem C7_verification_overwrites_the_tier_witness:
  "verifySubscription (verifySample (Some 1700000000000)) 1750000000000 sample_verify
      (Some ((sample_doc ''pro'' 0 3 ''2025-06'')\<lparr> subscriptionExpiresAt := Some 1800000000000,
               subscriptionProductId := Some ''pro.yearly'' \<rparr>)) =
     (Inr \<lparr> v_success = True, v_isActive = False, v_expiresAt = 1700000000000,
            v_subscriptionTier = ''free'' \<rparr>,
      Some ((sample_doc ''free'' 0 3 ''2025-06'')\<lparr> subscriptionExpiresAt := Some 1700000000000,
               subscriptionProductId := Some ''pro.monthly'',
               subscriptionVerifiedAt := Some 1750000000000 \<rparr>)) \<and>
   verifySubscription (verifySample (Some 1800000000000)) 1750000000000 sample_verify
      (Some (sample_doc ''free'' 0 3 ''2025-06'')) =
     (Inr \<lparr> v_success = True, v_isActive = True, v_expiresAt = 1800000000000,
            v_subscriptionTier = ''pro'' \<rparr>,
      Some ((sample_doc ''pro'' 0 3 ''2025-06'')\<lparr> subscriptionExpiresAt := Some 1800000000000,
               subscriptionProductId := Some ''pro.monthly'',
               subscriptionVerifiedAt := Some 1750000000000 \<rparr>))"
proof -
  have req: "v_auth_uid sample_verify = Some ''user-1''" "truthy_str (jwsToken sample_verify)"
    by (simp_all add: sample_verify_def truthy_str_def)
  have pay: "verifySample x (or_str (jwsToken sample_verify) []) =
      Inr \<lparr> expiresDate = x, productId = ''pro.monthly'' \<rparr>" for x
    by (simp add: verifySample_def)
  have old: "MIN_SECONDS \<le> 1700000000000 div 1000" "1700000000000 div 1000 \<le> MAX_SECONDS"
    and new: "MIN_SECONDS \<le> 1800000000000 div 1000" "1800000000000 div 1000 \<le> MAX_SECONDS"
    by (simp_all add: MIN_SECONDS_def MAX_SECONDS_def)
  have exp: "expiresDate \<lparr> expiresDate = x, productId = ''pro.monthly'' \<rparr> = x" for x
    by simp
  note expired = C7_verification_overwrites_the_tier
      [of sample_verify "''user-1''" "verifySample (Some 1700000000000)"
          "\<lparr> expiresDate = Some 1700000000000, productId = ''pro.monthly'' \<rparr>" 1700000000000
          1750000000000
          "(sample_doc ''pro'' 0 3 ''2025-06'')\<lparr> subscriptionExpiresAt := Some 1800000000000,
               subscriptionProductId := Some ''pro.yearly'' \<rparr>",
       OF req pay exp old]
  note renewed = C7_verification_overwrites_the_tier
      [of sample_verify "''user-1''" "verifySample (Some 1800000000000)"
          "\<lparr> expiresDate = Some 1800000000000, productId = ''pro.monthly'' \<rparr>" 1800000000000
          1750000000000 "sample_doc ''free'' 0 3 ''2025-06''",
       OF req pay exp new]
  from expired renewed show ?thesis
    by (simp add: sample_doc_def)
qed

text \<open>
  Whatever the record, a payload without a storable expiry ends the call with an
  \<open>internal\<close> error before anything is written.
\<close>

lemma verifySubscription_unstorable_expiry:
  assumes "timestampFromDate (newDate (expiresDate payload)) = Inl message"
    "v_auth_uid r = Some uid" "truthy_str (jwsToken r)"
    "verifier (or_str (jwsToken r) []) = Inr payload"
  shows "verifySubscription verifier t r u = (Inl (Internal message), u)"
  using assms by (simp add: verifySubscription_def Let_def)

subsection \<open>Claim C9: a device mismatch does not block\<close>

lemma vision_lifetime_serve_frame:
  "map_option deviceID (user (fst (snd (vision_lifetime_serve e r userId dev tier lim used stored1 logs ws))))
     = Some (deviceID stored1)"
  "snd (snd (vision_lifetime_serve e r userId dev tier lim used stored1 logs ws)) = ws"
  by (simp_all add: vision_lifetime_serve_def Let_def
      split: option.splits fetch_outcome.splits api_response.splits)

lemma proxy_lifetime_serve_frame:
  "map_option deviceID (user (fst (snd (proxy_lifetime_serve e userId dev userData lim stored1 logs ws))))
     = Some (deviceID stored1)"
  "snd (snd (proxy_lifetime_serve e userId dev userData lim stored1 logs ws)) = ws"
  by (simp_all add: proxy_lifetime_serve_def Let_def
      split: option.splits fetch_outcome.splits api_response.splits)

lemma proxy_lifetime_serve_device:
  "proxy_lifetime_serve e userId dev (userData\<lparr> deviceID := x \<rparr>) lim stored1 logs ws =
   proxy_lifetime_serve e userId dev userData lim stored1 logs ws"
  by (simp add: proxy_lifetime_serve_def Let_def
      split: option.splits fetch_outcome.splits api_response.splits)

lemma vision_lifetime_existing:
  assumes "user L = Some d" "auth_uid r = Some userId" "truthy_str (imageBase64 r)"
      "truthy_str (imageType r)" "truthy_str (photoType r)" "req_deviceID r = Some dev" "dev \<noteq> []"
      "(if toLowerCase (or_str (imageType r) []) = ''image/jpg'' then ''image/jpeg''
        else toLowerCase (or_str (imageType r) [])) \<in> set validTypes"
      "\<not> tooLarge (or_str (imageBase64 r) [])"
  shows "callClaudeVision_lifetime e r L =
     vision_lifetime_serve e r userId dev (or_str (subscriptionTier d) ''free'')
       (if or_str (subscriptionTier d) ''free'' = ''pro'' then 999999 else or_int (photoScansLimit d) 3)
       (or_int (photoScansUsed d) 0)
       (if truthy_str (deviceID d) \<and> deviceID d \<noteq> Some dev then d\<lparr> deviceID := Some dev \<rparr> else d)
       (usage_logs L)
       (if truthy_str (deviceID d) \<and> deviceID d \<noteq> Some dev then [mismatchWarning] else [])"
proof -
  have dv: "or_str (req_deviceID r) [] = dev" "truthy_str (req_deviceID r)"
    using assms(6,7) by (simp_all add: or_str_def truthy_str_def)
  show ?thesis
    unfolding callClaudeVision_lifetime_def Let_def
    using assms(1-5,8,9) dv by (simp split del: if_split cong: if_cong)
qed

lemma proxy_lifetime_existing:
  assumes "user L = Some d" "chat_auth_uid c = Some userId"
  shows "callClaudeProxy_lifetime e c L =
     proxy_lifetime_serve e userId (or_str (chat_deviceID c) ''unknown'') d
       (if subscriptionTier d = Some ''pro'' then 999999 else or_int (lifetimeLimit d) 3)
       (if truthy_str (deviceID d) \<and> deviceID d \<noteq> Some (or_str (chat_deviceID c) ''unknown'')
        then d\<lparr> deviceID := Some (or_str (chat_deviceID c) ''unknown'') \<rparr> else d)
       (usage_logs L)
       (if truthy_str (deviceID d) \<and> deviceID d \<noteq> Some (or_str (chat_deviceID c) ''unknown'')
        then [mismatchWarning] else [])"
  unfolding callClaudeProxy_lifetime_def Let_def
  using assms by (simp split del: if_split cong: if_cong)

text \<open>
  C9.  For every existing record with a stored, non-empty device identifier and every
  request that presents a different one (a well-formed photo scan, or an authenticated
  chat request, of the lifetime-limit generation): the result and the ledger are the same
  as if the record had already held the presented identifier, so the mismatch alone never
  turns a request into a rejection; the stored identifier is the presented one
  afterwards; and exactly one warning is written.
\<close>

theorem C9_device_mismatch_never_blocks:
  assumes "user L = Some d" "deviceID d = Some old" "old \<noteq> []"
    and "wellFormedLifetime r" "req_deviceID r = Some dev" "dev \<noteq> old"
    and "chat_auth_uid c \<noteq> None" "or_str (chat_deviceID c) ''unknown'' = cdev" "cdev \<noteq> old"
  shows "fst (callClaudeVision_lifetime e r L) =
           fst (callClaudeVision_lifetime e r (L\<lparr> user := Some (d\<lparr> deviceID := Some dev \<rparr>) \<rparr>)) \<and>
         fst (snd (callClaudeVision_lifetime e r L)) =
           fst (snd (callClaudeVision_lifetime e r (L\<lparr> user := Some (d\<lparr> deviceID := Some dev \<rparr>) \<rparr>))) \<and>
         map_option deviceID (user (fst (snd (callClaudeVision_lifetime e r L)))) = Some (Some dev) \<and>
         snd (snd (callClaudeVision_lifetime e r L)) = [mismatchWarning] \<and>
         fst (callClaudeProxy_lifetime e c L) =
           fst (callClaudeProxy_lifetime e c (L\<lparr> user := Some (d\<lparr> deviceID := Some cdev \<rparr>) \<rparr>)) \<and>
         fst (snd (callClaudeProxy_lifetime e c L)) =
           fst (snd (callClaudeProxy_lifetime e c (L\<lparr> user := Some (d\<lparr> deviceID := Some cdev \<rparr>) \<rparr>))) \<and>
         map_option deviceID (user (fst (snd (callClaudeProxy_lifetime e c L)))) = Some (Some cdev) \<and>
         snd (snd (callClaudeProxy_lifetime e c L)) = [mismatchWarning]"
proof -
  from assms(4) obtain userId where wf: "auth_uid r = Some userId" "truthy_str (imageBase64 r)"
      "truthy_str (imageType r)" "truthy_str (photoType r)" "truthy_str (req_deviceID r)"
      "(if toLowerCase (or_str (imageType r) []) = ''image/jpg'' then ''image/jpeg''
        else toLowerCase (or_str (imageType r) [])) \<in> set validTypes"
      "\<not> tooLarge (or_str (imageBase64 r) [])"
    by (auto simp add: wellFormedLifetime_def)
  from wf(5) assms(5) have dne: "dev \<noteq> []" by (simp add: truthy_str_def)
  let ?L0 = "L\<lparr> user := Some (d\<lparr> deviceID := Some dev \<rparr>) \<rparr>"
  have mism: "callClaudeVision_lifetime e r L =
      vision_lifetime_serve e r userId dev (or_str (subscriptionTier d) ''free'')
       (if or_str (subscriptionTier d) ''free'' = ''pro'' then 999999 else or_int (photoScansLimit d) 3)
       (or_int (photoScansUsed d) 0) (d\<lparr> deviceID := Some dev \<rparr>) (usage_logs L) [mismatchWarning]"
    using vision_lifetime_existing[OF assms(1) wf(1-4) assms(5) dne wf(6,7), of e] assms(2,3,6)
    by (simp add: truthy_str_def)
  have match: "callClaudeVision_lifetime e r ?L0 =
      vision_lifetime_serve e r userId dev (or_str (subscriptionTier d) ''free'')
       (if or_str (subscriptionTier d) ''free'' = ''pro'' then 999999 else or_int (photoScansLimit d) 3)
       (or_int (photoScansUsed d) 0) (d\<lparr> deviceID := Some dev \<rparr>) (usage_logs L) []"
    using vision_lifetime_existing[of ?L0 "d\<lparr> deviceID := Some dev \<rparr>" r userId dev e,
        OF _ wf(1-4) assms(5) dne wf(6,7)]
    by simp
  have same: "fst (vision_lifetime_serve e r userId dev t l u s logs ws) =
              fst (vision_lifetime_serve e r userId dev t l u s logs []) \<and>
              fst (snd (vision_lifetime_serve e r userId dev t l u s logs ws)) =
              fst (snd (vision_lifetime_serve e r userId dev t l u s logs []))" for t l u s logs ws
    by (simp add: vision_lifetime_serve_def Let_def
        split: option.splits fetch_outcome.splits api_response.splits)
  have vision: "fst (callClaudeVision_lifetime e r L) = fst (callClaudeVision_lifetime e r ?L0) \<and>
         fst (snd (callClaudeVision_lifetime e r L)) = fst (snd (callClaudeVision_lifetime e r ?L0)) \<and>
         map_option deviceID (user (fst (snd (callClaudeVision_lifetime e r L)))) = Some (Some dev) \<and>
         snd (snd (callClaudeVision_lifetime e r L)) = [mismatchWarning]"
    unfolding mism match using same by (simp add: vision_lifetime_serve_frame)
  from assms(7) obtain cu where cu: "chat_auth_uid c = Some cu" by auto
  let ?C0 = "L\<lparr> user := Some (d\<lparr> deviceID := Some cdev \<rparr>) \<rparr>"
  have cmism: "callClaudeProxy_lifetime e c L =
      proxy_lifetime_serve e cu cdev d
        (if subscriptionTier d = Some ''pro'' then 999999 else or_int (lifetimeLimit d) 3)
        (d\<lparr> deviceID := Some cdev \<rparr>) (usage_logs L) [mismatchWarning]"
    using proxy_lifetime_existing[OF assms(1) cu, of e] assms(2,3,8,9)
    by (simp add: truthy_str_def)
  have cmatch: "callClaudeProxy_lifetime e c ?C0 =
      proxy_lifetime_serve e cu cdev d
        (if subscriptionTier d = Some ''pro'' then 999999 else or_int (lifetimeLimit d) 3)
        (d\<lparr> deviceID := Some cdev \<rparr>) (usage_logs L) []"
    using proxy_lifetime_existing[of ?C0 "d\<lparr> deviceID := Some cdev \<rparr>" c cu e, OF _ cu] assms(8)
    by (simp add: proxy_lifetime_serve_device)
  have csame: "fst (proxy_lifetime_serve e cu cdev ud l s logs ws) =
              fst (proxy_lifetime_serve e cu cdev ud l s logs []) \<and>
              fst (snd (proxy_lifetime_serve e cu cdev ud l s logs ws)) =
              fst (snd (proxy_lifetime_serve e cu cdev ud l s logs []))" for ud l s logs ws
    by (simp add: proxy_lifetime_serve_def Let_def
        split: option.splits fetch_outcome.splits api_response.splits)
  have proxy: "fst (callClaudeProxy_lifetime e c L) = fst (callClaudeProxy_lifetime e c ?C0) \<and>
         fst (snd (callClaudeProxy_lifetime e c L)) = fst (snd (callClaudeProxy_lifetime e c ?C0)) \<and>
         map_option deviceID (user (fst (snd (callClaudeProxy_lifetime e c L)))) = Some (Some cdev) \<and>
         snd (snd (callClaudeProxy_lifetime e c L)) = [mismatchWarning]"
    unfolding cmism cmatch using csame by (simp add: proxy_lifetime_serve_frame)
  from vision proxy show ?thesis by blast
qed

lemma sample_wellFormedLifetime: "wellFormedLifetime sample_request"
  by (simp add: wellFormedLifetime_def sample_request_def truthy_str_def or_str_def validTypes_def
      tooLarge_def toLowerCase_def lower_char_def)

text \<open>
  Witness for C9: a free record bound to \<open>device-A\<close> with 2 of 3 used; a photo scan from
  \<open>device-B\<close> and a chat request from \<open>device-C\<close> both succeed and rebind the record.
\<close>

theorem C9_device_mismatch_never_blocks_witness:
  "deviceID (sample_doc ''free'' 2 3 ''2025-06'') = Some ''device-A'' \<and>
   req_deviceID sample_request = Some ''device-B'' \<and>
   succeeded (fst (callClaudeVision_lifetime env_ok sample_request
       (sample_ledger (sample_doc ''free'' 2 3 ''2025-06'')))) \<and>
   map_option deviceID (user (fst (snd (callClaudeVision_lifetime env_ok sample_request
       (sample_ledger (sample_doc ''free'' 2 3 ''2025-06'')))))) = Some (Some ''device-B'') \<and>
   snd (snd (callClaudeVision_lifetime env_ok sample_request
       (sample_ledger (sample_doc ''free'' 2 3 ''2025-06'')))) = [mismatchWarning] \<and>
   succeeded (fst (callClaudeProxy_lifetime env_ok sample_chat
       (sample_ledger (sample_doc ''free'' 2 3 ''2025-06'')))) \<and>
   map_option deviceID (user (fst (snd (callClaudeProxy_lifetime env_ok sample_chat
       (sample_ledger (sample_doc ''free'' 2 3 ''2025-06'')))))) = Some (Some ''device-C'')"
proof -
  let ?d = "sample_doc ''free'' 2 3 ''2025-06''"
  have v0: "succeeded (fst (callClaudeVision_lifetime env_ok sample_request
       ((sample_ledger ?d)\<lparr> user := Some (?d\<lparr> deviceID := Some ''device-B'' \<rparr>) \<rparr>)))"
    by code_simp
  have c0: "succeeded (fst (callClaudeProxy_lifetime env_ok sample_chat
       ((sample_ledger ?d)\<lparr> user := Some (?d\<lparr> deviceID := Some ''device-C'' \<rparr>) \<rparr>)))"
    by code_simp
  have rd: "req_deviceID sample_request = Some ''device-B''"
    by (simp add: sample_request_def)
  have ca: "chat_auth_uid sample_chat \<noteq> None" "or_str (chat_deviceID sample_chat) ''unknown'' = ''device-C''"
    by (simp_all add: sample_chat_def or_str_def)
  have dv: "deviceID ?d = Some ''device-A''"
    by (simp add: sample_doc_fields)
  have ne: "''device-A'' \<noteq> []" "''device-B'' \<noteq> ''device-A''" "''device-C'' \<noteq> ''device-A''"
    by simp_all
  note facts = C9_device_mismatch_never_blocks
      [of "sample_ledger ?d" ?d "''device-A''" sample_request "''device-B''" sample_chat "''device-C''" env_ok,
       OF sample_ledger_fields(1) dv ne(1) sample_wellFormedLifetime rd ne(2) ca ne(3)]
  from facts v0 have v: "succeeded (fst (callClaudeVision_lifetime env_ok sample_request (sample_ledger ?d)))"
    by metis
  from facts c0 have c: "succeeded (fst (callClaudeProxy_lifetime env_ok sample_chat (sample_ledger ?d)))"
    by metis
  from facts v c rd dv show ?thesis
    by blast
qed

end
